theory Spec2Isabelle
  imports Main "HOL-Library.Char_ord" "HOL-Library.List_Lexorder"
begin

section \<open>JavaScript values\<close>

text \<open>
  A JavaScript string is modelled as a \<^typ>\<open>string\<close>; relational operators on strings
  compare them lexicographically, unit by unit, which is the order of
  \<^theory_text>\<open>HOL-Library.List_Lexorder\<close> over \<^theory_text>\<open>HOL-Library.Char_ord\<close>.
  A nullable column of a row is an \<open>option\<close>; \<open>None\<close> is \<open>null\<close>.
\<close>

text \<open>The character class \<open>\d\<close> of a regular expression without the unicode flag: \<open>[0-9]\<close>.\<close>

definition isDigit :: "char \<Rightarrow> bool" where
  "isDigit c \<longleftrightarrow> CHR ''0'' \<le> c \<and> c \<le> CHR ''9''"

text \<open>
  \<^verbatim>\<open>phone.replace(/\D/g, '')\<close>: the scan goes through the string from the left; every
  unit that matches \<open>\D\<close> is replaced by the empty string, every other unit is kept.
\<close>

primrec replace_non_digits :: "string \<Rightarrow> string" where
  "replace_non_digits [] = []"
| "replace_non_digits (c # cs) =
     (if isDigit c then c # replace_non_digits cs else [] @ replace_non_digits cs)"

section \<open>Compliance engine: phone numbers\<close>

text \<open>
  \<^verbatim>\<open>
  normalizePhone(phone) {
    let digits = phone.replace(/\D/g, '');
    if (digits.length === 10) { digits = '1' + digits; }
    return '+' + digits;
  }
  \<close>
\<close>

definition normalizePhone :: "string \<Rightarrow> string" where
  "normalizePhone phone =
     (let digits = replace_non_digits phone;
          digits = (if length digits = 10 then ''1'' @ digits else digits)
      in ''+'' @ digits)"

section \<open>Persisted state\<close>

text \<open>
  The store is a set of tables, each a list of rows. Only the columns that the
  modelled functions read or write are kept. Identifiers (\<open>UUID\<close> columns, job ids) are
  natural numbers, instants (\<open>TIMESTAMPTZ\<close>, JavaScript dates) are milliseconds since the
  epoch. The statement of \<open>updateMessageStatus\<close> is modelled with the types, the lengths
  and the \<open>CHECK\<close> constraint of the columns it assigns; the other statements store what
  the JavaScript code sends, and the constraints of the schema (\<open>NOT NULL\<close>, \<open>UNIQUE\<close>,
  foreign keys) are not enforced for them.
\<close>

type_synonym uuid = nat
type_synonym instant = int

record contact =
  c_id :: uuid
  c_tenant_id :: uuid
  c_phone :: "string option"
  c_email :: "string option"
  c_primary_location_id :: "uuid option"
  c_sms_consent :: "bool option"
  c_sms_consent_at :: "instant option"
  c_sms_opted_out :: "bool option"
  c_sms_opted_out_at :: "instant option"
  c_email_consent :: "bool option"
  c_email_consent_at :: "instant option"
  c_email_opted_out :: "bool option"
  c_email_opted_out_at :: "instant option"
  c_age_verified :: "bool option"
  c_date_of_birth :: "instant option"
  c_tags :: "string list option"
  c_timezone :: "string option"

record location =
  l_id :: uuid
  l_tenant_id :: uuid
  l_state :: "string option"
  l_timezone :: "string option"
  l_sms_phone_number :: "string option"

record campaign =
  cp_id :: uuid
  cp_tenant_id :: uuid
  cp_type :: string
  cp_status :: string
  cp_sms_content :: "string option"
  cp_target_locations :: "uuid list option"
  cp_target_tags :: "string list option"
  cp_total_recipients :: int
  cp_sent_count :: int
  cp_delivered_count :: int
  cp_failed_count :: int
  cp_started_at :: "instant option"
  cp_completed_at :: "instant option"

record message =
  m_id :: uuid
  m_tenant_id :: uuid
  m_campaign_id :: "uuid option"
  m_contact_id :: "uuid option"
  m_location_id :: "uuid option"
  m_type :: string
  m_direction :: string
  m_to_address :: "string option"
  m_from_address :: "string option"
  m_content :: string
  m_status :: string
  m_status_updated_at :: "instant option"
  m_provider :: "string option"
  m_provider_message_id :: "string option"
  m_provider_status :: "string option"
  m_provider_error :: "string option"
  m_consent_verified_at :: "instant option"
  m_quiet_hours_checked_at :: "instant option"
  m_segments :: int
  m_sent_at :: "instant option"
  m_delivered_at :: "instant option"
  m_created_at :: instant

record opt_out_entry =
  o_id :: uuid
  o_tenant_id :: uuid
  o_contact_id :: "uuid option"
  o_channel :: string
  o_address :: string
  o_action :: string
  o_method :: string
  o_source_message_id :: "uuid option"
  o_created_at :: instant

record global_opt_out =
  g_id :: uuid
  g_phone :: string
  g_opted_out_at :: instant
  g_source_tenant_id :: uuid

text \<open>
  The payload and the options of a job of the \<open>sms-messages\<close> queue, as \<open>queueSMS\<close>
  passes them to \<open>smsQueue.add\<close>.
\<close>

record sms_job_data =
  j_tenantId :: uuid
  j_contactId :: uuid
  j_locationId :: "uuid option"
  j_content :: "string option"
  j_campaignId :: "uuid option"

record job =
  job_id :: nat
  job_name :: string
  job_data :: sms_job_data
  job_delay :: int
  job_attempts :: nat
  job_backoff_type :: string
  job_backoff_delay :: int

text \<open>
  The world a function runs in: the tables, the queue, the lines written to the logger
  (level and message) and the supply of fresh identifiers.
\<close>

record world =
  contacts :: "contact list"
  locations :: "location list"
  campaigns :: "campaign list"
  messages :: "message list"
  opt_out_log :: "opt_out_entry list"
  global_opt_outs :: "global_opt_out list"
  smsQueue :: "job list"
  logger :: "(string \<times> string) list"
  next_id :: nat

definition log_line :: "string \<Rightarrow> string \<Rightarrow> world \<Rightarrow> world" where
  "log_line level msg w = w\<lparr>logger := logger w @ [(level, msg)]\<rparr>"

text \<open>
  Row level security: a statement run by \<open>queryWithTenant\<close> sees the rows of the tenant
  whose id was put in \<open>app.current_tenant\<close>, and no other row.
\<close>

definition tenant_contacts :: "world \<Rightarrow> uuid \<Rightarrow> contact list" where
  "tenant_contacts w t = filter (\<lambda>c. c_tenant_id c = t) (contacts w)"

definition tenant_locations :: "world \<Rightarrow> uuid \<Rightarrow> location list" where
  "tenant_locations w t = filter (\<lambda>l. l_tenant_id l = t) (locations w)"

definition tenant_messages :: "world \<Rightarrow> uuid \<Rightarrow> message list" where
  "tenant_messages w t = filter (\<lambda>m. m_tenant_id m = t) (messages w)"

definition tenant_campaigns :: "world \<Rightarrow> uuid \<Rightarrow> campaign list" where
  "tenant_campaigns w t = filter (\<lambda>c. cp_tenant_id c = t) (campaigns w)"

text \<open>Truthiness of a nullable boolean and of a nullable string (\<open>''\<close> is falsy).\<close>

definition truthy :: "bool option \<Rightarrow> bool" where
  "truthy b \<longleftrightarrow> b = Some True"

definition truthy_str :: "string option \<Rightarrow> bool" where
  "truthy_str s \<longleftrightarrow> (case s of None \<Rightarrow> False | Some v \<Rightarrow> v \<noteq> [])"

text \<open>What a function throws.\<close>

datatype error = RangeError string | TypeError string | Error string | DatabaseError string

text \<open>
  The environment of the process: the configuration object, the two services of the
  date library whose tables are not part of the program, and the carrier.
  \<open>utcOffset tz t\<close> is the offset from UTC, in minutes, of the zone named \<open>tz\<close> at the
  instant \<open>t\<close> (\<open>None\<close> when the runtime knows no such zone, where \<open>dayjs().tz(tz)\<close>
  throws); \<open>diffYears a b\<close> is \<open>dayjs(a).diff(dayjs(b), 'year')\<close>;
  \<open>messages_create params\<close> is the outcome of \<open>telnyx.messages.create(params)\<close>: the
  response, or the message of the error it throws.
  Two more fields describe the database server and its driver, which are not part of the
  program either: \<open>mixed_parameter_ok\<close> says whether the server executes a statement in
  which one untyped parameter is used as a value of two types, or refuses it with
  \<open>inconsistent types deduced for parameter\<close>; \<open>prepareInherited name\<close> is the text that
  the driver sends for the property \<open>name\<close> that an object inherits from
  \<open>Object.prototype\<close>. What the program does is stated below for both answers of the
  server.
\<close>

record config =
  quietHours_start :: string
  quietHours_end :: string
  maxMessagesPerDayPerRecipient :: int
  optOutKeywords :: "string list"
  optInKeywords :: "string list"
  messagingProfileId :: "string option"

record telnyx_params =
  tp_to :: "string option"
  tp_text :: string
  tp_from :: "string option"
  tp_messaging_profile_id :: "string option"

record telnyx_response =
  tr_id :: string
  tr_parts :: "int option"

record env =
  config :: config
  utcOffset :: "string \<Rightarrow> instant \<Rightarrow> int option"
  diffYears :: "instant \<Rightarrow> instant \<Rightarrow> int"
  messages_create :: "telnyx_params \<Rightarrow> string + telnyx_response"
  mixed_parameter_ok :: bool
  prepareInherited :: "string \<Rightarrow> string"

section \<open>Numbers, strings and dates of the runtime\<close>

text \<open>The decimal rendering of a number inside a template literal.\<close>

definition digit_char :: "nat \<Rightarrow> char" where
  "digit_char n = ''0123456789'' ! (n mod 10)"

fun show_nat :: "nat \<Rightarrow> string" where
  "show_nat n = (if n < 10 then [digit_char n] else show_nat (n div 10) @ [digit_char n])"

declare show_nat.simps [simp del]

definition show_int :: "int \<Rightarrow> string" where
  "show_int i = (if i < 0 then CHR ''-'' # show_nat (nat (- i)) else show_nat (nat i))"

text \<open>\<^verbatim>\<open>s.split(sep)\<close> for a separator of one unit, and the element at an index of the result
  (\<open>undefined\<close> past the end).\<close>

fun split_on :: "char \<Rightarrow> string \<Rightarrow> string list" where
  "split_on sep [] = [[]]"
| "split_on sep (c # cs) =
     (if c = sep then [] # split_on sep cs
      else (case split_on sep cs of
              [] \<Rightarrow> [[c]]
            | x # xs \<Rightarrow> (c # x) # xs))"

definition element_at :: "'a list \<Rightarrow> nat \<Rightarrow> 'a option" where
  "element_at xs i = (if i < length xs then Some (xs ! i) else None)"

text \<open>
  \<^verbatim>\<open>parseInt(string)\<close> with no radix: leading white space is skipped, a sign is read, a
  prefix \<open>0x\<close> selects radix 16, and the longest run of digits of the radix is the value;
  \<open>None\<close> is \<open>NaN\<close>. \<open>parseInt(undefined)\<close> is \<open>NaN\<close>.
\<close>

definition isWhiteSpace :: "char \<Rightarrow> bool" where
  "isWhiteSpace c \<longleftrightarrow> c \<in> set [CHR 0x09, CHR 0x0A, CHR 0x0B, CHR 0x0C, CHR 0x0D, CHR 0x20, CHR 0xA0]"

definition digit_value :: "char \<Rightarrow> nat" where
  "digit_value c =
     (if CHR ''0'' \<le> c \<and> c \<le> CHR ''9'' then of_char c - 48
      else if CHR ''a'' \<le> c \<and> c \<le> CHR ''z'' then of_char c - 87
      else if CHR ''A'' \<le> c \<and> c \<le> CHR ''Z'' then of_char c - 55
      else 36)"

definition parseInt :: "string option \<Rightarrow> int option" where
  "parseInt input =
     (case input of
        None \<Rightarrow> None
      | Some str \<Rightarrow>
          (let s = dropWhile isWhiteSpace str;
               sign = (if take 1 s = ''-'' then - 1 else (1::int));
               s = (if take 1 s = ''-'' \<or> take 1 s = ''+'' then drop 1 s else s);
               radix = (if take 2 s = ''0x'' \<or> take 2 s = ''0X'' then 16 else (10::nat));
               s = (if take 2 s = ''0x'' \<or> take 2 s = ''0X'' then drop 2 s else s);
               ds = takeWhile (\<lambda>c. digit_value c < radix) s
           in if ds = [] then None
              else Some (sign * int (foldl (\<lambda>acc c. acc * radix + digit_value c) 0 ds))))"

text \<open>
  A \<open>dayjs\<close> object that \<open>.tz(tz)\<close> returned: the wall clock of the zone, as milliseconds
  counted as if the wall clock were UTC, and the offset of the zone in minutes that was in
  force at the instant the object was made from. The setters and \<open>add\<close> work on the wall
  clock and keep the offset. A function that reads the clock takes the instant \<open>now\<close> as
  an argument, and every reading of the clock during one call is that instant.
\<close>

record dayjs =
  wall :: int
  offset :: int

definition dayjs_tz :: "env \<Rightarrow> string \<Rightarrow> instant \<Rightarrow> error + dayjs" where
  "dayjs_tz e tz now =
     (case utcOffset e tz now of
        None \<Rightarrow> Inl (RangeError ''Invalid time zone specified'')
      | Some off \<Rightarrow> Inr \<lparr>wall = now + off * 60000, offset = off\<rparr>)"

definition valueOf :: "dayjs \<Rightarrow> instant" where
  "valueOf d = wall d - offset d * 60000"

definition hour_of :: "dayjs \<Rightarrow> int" where
  "hour_of d = (wall d div 3600000) mod 24"

definition minute_of :: "dayjs \<Rightarrow> int" where
  "minute_of d = (wall d div 60000) mod 60"

definition second_of :: "dayjs \<Rightarrow> int" where
  "second_of d = (wall d div 1000) mod 60"

text \<open>\<open>.hour(h)\<close>, \<open>.minute(m)\<close>, \<open>.second(s)\<close>: one field of the wall clock is replaced, the
  others (the milliseconds among them) are kept.\<close>

definition set_hour :: "int \<Rightarrow> dayjs \<Rightarrow> dayjs" where
  "set_hour h d = d\<lparr>wall := wall d + (h - hour_of d) * 3600000\<rparr>"

definition set_minute :: "int \<Rightarrow> dayjs \<Rightarrow> dayjs" where
  "set_minute m d = d\<lparr>wall := wall d + (m - minute_of d) * 60000\<rparr>"

definition set_second :: "int \<Rightarrow> dayjs \<Rightarrow> dayjs" where
  "set_second s d = d\<lparr>wall := wall d + (s - second_of d) * 1000\<rparr>"

definition add_days :: "int \<Rightarrow> dayjs \<Rightarrow> dayjs" where
  "add_days n d = d\<lparr>wall := wall d + n * 86400000\<rparr>"

definition isBefore :: "dayjs \<Rightarrow> dayjs \<Rightarrow> bool" where
  "isBefore a b \<longleftrightarrow> valueOf a < valueOf b"

text \<open>\<open>.format('HH:mm')\<close>: hours and minutes of the wall clock, two digits each.\<close>

definition padStart2 :: "string \<Rightarrow> string" where
  "padStart2 s = replicate (2 - length s) (CHR ''0'') @ s"

definition format_HHmm :: "dayjs \<Rightarrow> string" where
  "format_HHmm d =
     padStart2 (show_nat (nat (hour_of d))) @ '':'' @ padStart2 (show_nat (nat (minute_of d)))"

section \<open>Compliance engine: the checks\<close>

text \<open>
  Every check returns \<open>{ approved, reasons }\<close>; the quiet hours check adds \<open>retryAfter\<close>
  when it fails (\<open>None\<close> is the missing property).
\<close>

record check_result =
  approved :: bool
  reasons :: "string list"
  retryAfter :: "instant option"

definition pass :: check_result where
  "pass = \<lparr>approved = True, reasons = [], retryAfter = None\<rparr>"

definition fail :: "string \<Rightarrow> check_result" where
  "fail reason = \<lparr>approved = False, reasons = [reason], retryAfter = None\<rparr>"

text \<open>
  The row that \<open>checkMessage\<close> selects: the contact, with \<open>state\<close> and
  \<open>location_timezone\<close> of its primary location (\<open>LEFT JOIN\<close>: both \<open>null\<close> when the
  contact has no location that the tenant sees).
\<close>

record contact_row =
  r_contact :: contact
  r_state :: "string option"
  r_location_timezone :: "string option"

definition contact_query :: "world \<Rightarrow> uuid \<Rightarrow> uuid \<Rightarrow> contact_row list" where
  "contact_query w tenantId contactId =
     concat (map
       (\<lambda>c. case filter (\<lambda>l. c_primary_location_id c = Some (l_id l)) (tenant_locations w tenantId) of
               [] \<Rightarrow> [\<lparr>r_contact = c, r_state = None, r_location_timezone = None\<rparr>]
             | l # ls \<Rightarrow>
                 map (\<lambda>l. \<lparr>r_contact = c, r_state = l_state l, r_location_timezone = l_timezone l\<rparr>)
                   (l # ls))
       (filter (\<lambda>c. c_id c = contactId) (tenant_contacts w tenantId)))"

definition checkConsent :: "contact_row \<Rightarrow> string \<Rightarrow> check_result" where
  "checkConsent contact messageType =
     (if messageType = ''sms'' then
        (if \<not> truthy (c_sms_consent (r_contact contact)) then fail ''No SMS consent on file''
         else if c_sms_consent_at (r_contact contact) = None then fail ''SMS consent timestamp missing''
         else pass)
      else if messageType = ''email'' then
        (if \<not> truthy (c_email_consent (r_contact contact)) then fail ''No email consent on file''
         else pass)
      else pass)"

definition checkOptOut :: "contact_row \<Rightarrow> string \<Rightarrow> check_result" where
  "checkOptOut contact messageType =
     (if messageType = ''sms'' \<and> truthy (c_sms_opted_out (r_contact contact))
      then fail ''Contact has opted out of SMS''
      else if messageType = ''email'' \<and> truthy (c_email_opted_out (r_contact contact))
      then fail ''Contact has opted out of email''
      else pass)"

definition checkAgeVerification :: "env \<Rightarrow> instant \<Rightarrow> contact_row \<Rightarrow> check_result" where
  "checkAgeVerification e now contact =
     (if \<not> truthy (c_age_verified (r_contact contact)) then fail ''Age not verified (21+ required)''
      else (case c_date_of_birth (r_contact contact) of
              None \<Rightarrow> pass
            | Some dob \<Rightarrow>
                (let age = diffYears e now dob
                 in if age < 21 then fail ''Contact is under 21'' else pass)))"

definition checkGlobalOptOut :: "world \<Rightarrow> string \<Rightarrow> check_result" where
  "checkGlobalOptOut w phone =
     (let rows = filter (\<lambda>g. g_phone g = normalizePhone phone) (global_opt_outs w)
      in if length rows > 0 then fail ''Phone number on global opt-out list'' else pass)"

text \<open>
  \<^verbatim>\<open>
  getQuietHoursEnd(tz) {
    const [hours, minutes] = config.compliance.quietHours.end.split(':');
    let endTime = dayjs().tz(tz).hour(parseInt(hours)).minute(parseInt(minutes)).second(0);
    if (endTime.isBefore(dayjs().tz(tz))) { endTime = endTime.add(1, 'day'); }
    return endTime.toISOString();
  }
  \<close>
  The result is kept as the instant that the ISO string denotes. A field set to \<open>NaN\<close>
  makes the date invalid, and \<open>toISOString\<close> of an invalid date throws.
\<close>

definition getQuietHoursEnd :: "env \<Rightarrow> instant \<Rightarrow> string \<Rightarrow> error + instant" where
  "getQuietHoursEnd e now tz =
     (let parts = split_on (CHR '':'') (quietHours_end (config e));
          hours = element_at parts 0;
          minutes = element_at parts 1
      in case dayjs_tz e tz now of
           Inl err \<Rightarrow> Inl err
         | Inr today \<Rightarrow>
             (case parseInt hours of
                None \<Rightarrow> Inl (RangeError ''Invalid time value'')
              | Some h \<Rightarrow>
                  (case parseInt minutes of
                     None \<Rightarrow> Inl (RangeError ''Invalid time value'')
                   | Some m \<Rightarrow>
                       (let endTime = set_second 0 (set_minute m (set_hour h today));
                            endTime = (if isBefore endTime today then add_days 1 endTime else endTime)
                        in Inr (valueOf endTime)))))"

text \<open>\<open>a || b\<close> for a nullable string \<open>a\<close>: \<open>null\<close> and the empty string are falsy.\<close>

definition or_else :: "string option \<Rightarrow> string \<Rightarrow> string" where
  "or_else a b = (case a of None \<Rightarrow> b | Some v \<Rightarrow> if v = [] then b else v)"

definition resolve_tz :: "contact_row \<Rightarrow> string" where
  "resolve_tz contact =
     or_else (c_timezone (r_contact contact))
       (or_else (r_location_timezone contact) ''America/Los_Angeles'')"

definition inQuietHours :: "string \<Rightarrow> string \<Rightarrow> string \<Rightarrow> bool" where
  "inQuietHours quietStart quietEnd currentTime =
     (if quietStart > quietEnd
      then currentTime \<ge> quietStart \<or> currentTime < quietEnd
      else currentTime \<ge> quietStart \<and> currentTime < quietEnd)"

definition checkQuietHours :: "env \<Rightarrow> instant \<Rightarrow> contact_row \<Rightarrow> error + check_result" where
  "checkQuietHours e now contact =
     (let tz = resolve_tz contact
      in case dayjs_tz e tz now of
           Inl err \<Rightarrow> Inl err
         | Inr now_tz \<Rightarrow>
             (let currentTime = format_HHmm now_tz;
                  quietStart = quietHours_start (config e);
                  quietEnd = quietHours_end (config e)
              in if inQuietHours quietStart quietEnd currentTime
                 then (case getQuietHoursEnd e now tz of
                         Inl err \<Rightarrow> Inl err
                       | Inr endIso \<Rightarrow>
                           Inr \<lparr>approved = False,
                                reasons = [''Quiet hours in effect ('' @ quietStart @ '' - '' @ quietEnd
                                             @ '' '' @ tz @ '')''],
                                retryAfter = Some endIso\<rparr>)
                 else Inr pass))"

definition checkRateLimit :: "env \<Rightarrow> world \<Rightarrow> instant \<Rightarrow> uuid \<Rightarrow> uuid \<Rightarrow> string \<Rightarrow> check_result" where
  "checkRateLimit e w now tenantId contactId messageType =
     (let count = int (length (filter
            (\<lambda>m. m_contact_id m = Some contactId \<and> m_type m = messageType
                  \<and> m_direction m = ''outbound'' \<and> m_created_at m > now - 86400000)
            (tenant_messages w tenantId)))
      in if count \<ge> maxMessagesPerDayPerRecipient (config e)
         then fail (''Rate limit exceeded ('' @ show_int count @ ''/''
                      @ show_int (maxMessagesPerDayPerRecipient (config e)) @ '' messages in 24h)'')
         else pass)"

definition checkStateRules :: "string option \<Rightarrow> string \<Rightarrow> check_result" where
  "checkStateRules state messageType = pass"

section \<open>Compliance engine: the full check of a message\<close>

record checks =
  ck_consent :: bool
  ck_optOut :: bool
  ck_ageVerification :: bool
  ck_quietHours :: bool
  ck_rateLimit :: bool
  ck_stateRules :: bool

record compliance_result =
  cr_approved :: bool
  cr_reasons :: "string list"
  cr_contact :: "contact_row option"
  cr_checks :: "checks option"

text \<open>\<^verbatim>\<open>if (!check.approved) reasons.push(...check.reasons)\<close>\<close>

definition push_reasons :: "string list \<Rightarrow> check_result \<Rightarrow> string list" where
  "push_reasons rs chk = (if \<not> approved chk then rs @ reasons chk else rs)"

text \<open>
  \<open>checkMessage(tenantId, contactId, messageType)\<close>, evaluated at the instant \<open>now\<close>
  (the clock of the process and \<open>NOW()\<close> of the store). The function returns early for a
  contact that the tenant does not have; otherwise the seven checks run one after the
  other, and none of them stops the next. The quiet hours check is evaluated a second
  time for the \<open>checks\<close> object.
\<close>

definition checkMessage ::
  "env \<Rightarrow> world \<Rightarrow> instant \<Rightarrow> uuid \<Rightarrow> uuid \<Rightarrow> string \<Rightarrow> error + compliance_result" where
  "checkMessage e w now tenantId contactId messageType =
     (case contact_query w tenantId contactId of
        [] \<Rightarrow> Inr \<lparr>cr_approved = False, cr_reasons = [''Contact not found''],
                   cr_contact = None, cr_checks = None\<rparr>
      | contact # _ \<Rightarrow>
          (let consentCheck = checkConsent contact messageType;
               reasons1 = push_reasons [] consentCheck;
               optOutCheck = checkOptOut contact messageType;
               reasons2 = push_reasons reasons1 optOutCheck;
               ageCheck = checkAgeVerification e now contact;
               reasons3 = push_reasons reasons2 ageCheck;
               reasons4 =
                 (case c_phone (r_contact contact) of
                    None \<Rightarrow> reasons3
                  | Some phone \<Rightarrow>
                      if messageType = ''sms'' \<and> phone \<noteq> []
                      then push_reasons reasons3 (checkGlobalOptOut w phone)
                      else reasons3)
           in case (if messageType = ''sms'' then checkQuietHours e now contact else Inr pass) of
                Inl err \<Rightarrow> Inl err
              | Inr quietHoursCheck \<Rightarrow>
                  (let reasons5 = push_reasons reasons4 quietHoursCheck;
                       rateLimitCheck = checkRateLimit e w now tenantId contactId messageType;
                       reasons6 = push_reasons reasons5 rateLimitCheck;
                       stateCheck = checkStateRules (r_state contact) messageType;
                       reasons7 = push_reasons reasons6 stateCheck
                   in case (if messageType = ''sms'' then checkQuietHours e now contact else Inr pass) of
                        Inl err \<Rightarrow> Inl err
                      | Inr quietHoursAgain \<Rightarrow>
                          Inr \<lparr>cr_approved = (length reasons7 = 0),
                               cr_reasons = reasons7,
                               cr_contact = Some contact,
                               cr_checks = Some
                                 \<lparr>ck_consent = approved consentCheck,
                                  ck_optOut = approved optOutCheck,
                                  ck_ageVerification = approved ageCheck,
                                  ck_quietHours = approved quietHoursAgain,
                                  ck_rateLimit = approved rateLimitCheck,
                                  ck_stateRules = approved stateCheck\<rparr>\<rparr>)))"

section \<open>Compliance engine: opt-out and opt-in\<close>









section \<open>Compliance engine: the content scan\<close>

text \<open>
  \<open>toLowerCase\<close> on the ASCII letters (the units of a \<^typ>\<open>string\<close> carry no other
  alphabet), and \<open>haystack.includes(needle)\<close>.
\<close>

definition toLowerCase :: "string \<Rightarrow> string" where
  "toLowerCase s =
     map (\<lambda>c. if CHR ''A'' \<le> c \<and> c \<le> CHR ''Z'' then char_of (of_char c + (32::nat)) else c) s"

fun includes_str :: "string \<Rightarrow> string \<Rightarrow> bool" where
  "includes_str [] needle = (needle = [])"
| "includes_str (c # cs) needle = (take (length needle) (c # cs) = needle \<or> includes_str cs needle)"

record scan_result =
  sc_approved :: bool
  sc_issues :: "string list"

definition healthClaims :: "string list" where
  "healthClaims = [''cure'', ''treat'', ''heal'', ''medical benefit'', ''health benefit'',
                   ''prevents'', ''reduces risk'', ''therapeutic'']"

definition minorAppealing :: "string list" where
  "minorAppealing = [''candy'', ''cartoon'', ''kid'', ''child'', ''toy'', ''school'']"

definition scanContent :: "string \<Rightarrow> string option \<Rightarrow> scan_result" where
  "scanContent content state =
     (let contentLower = toLowerCase content;
          issues1 = map (\<lambda>t. ''Potential health claim detected: '' @ [CHR 0x22] @ t @ [CHR 0x22])
                      (filter (includes_str contentLower) healthClaims);
          issues2 = map (\<lambda>t. ''Term that may appeal to minors: '' @ [CHR 0x22] @ t @ [CHR 0x22])
                      (filter (includes_str contentLower) minorAppealing);
          issues = issues1 @ issues2
      in \<lparr>sc_approved = (length issues = 0), sc_issues = issues\<rparr>)"

section \<open>The queue\<close>

text \<open>
  \<open>queueSMS\<close> adds one job to the \<open>sms-messages\<close> queue; \<open>delay\<close> is 0 when the caller
  gives none.
\<close>

definition queueSMS :: "sms_job_data \<Rightarrow> int \<Rightarrow> world \<Rightarrow> job \<times> world" where
  "queueSMS data delay w =
     (let j = \<lparr>job_id = next_id w, job_name = ''send-sms'', job_data = data, job_delay = delay,
                job_attempts = 3, job_backoff_type = ''exponential'', job_backoff_delay = 5000\<rparr>;
          w1 = w\<lparr>smsQueue := smsQueue w @ [j], next_id := Suc (next_id w)\<rparr>;
          w2 = log_line ''info'' ''SMS queued'' w1
      in (j, w2))"

text \<open>
  What \<open>queueSMSWithQuietHours\<close> returns: the job that was queued, or
  \<open>{ blocked: true, reasons }\<close>.
  \<^verbatim>\<open>
  const complianceResult = await compliance.checkMessage(tenantId, contactId, 'sms');
  if (!complianceResult.approved) {
    // Check if it's specifically quiet hours
    if (!complianceResult.checks.quietHours && complianceResult.contact) {
      // Calculate delay until quiet hours end
      const retryAfter = compliance.checkQuietHours(complianceResult.contact).retryAfter;
      if (retryAfter) {
        const delay = new Date(retryAfter).getTime() - Date.now();
        return queueSMS({ tenantId, contactId, locationId, content, campaignId, delay });
      }
    }
    // Other compliance failure - don't queue
    return { blocked: true, reasons: complianceResult.reasons };
  }
  // No delay needed
  return queueSMS({ tenantId, contactId, locationId, content, campaignId });
  \<close>
  The result of \<open>checkMessage\<close> for an unknown contact has no \<open>checks\<close> property, and
  reading \<open>quietHours\<close> of it throws.
\<close>

datatype queue_outcome = Queued job | Blocked "string list"

definition queueSMSWithQuietHours ::
  "env \<Rightarrow> world \<Rightarrow> instant \<Rightarrow> sms_job_data \<Rightarrow> error + queue_outcome \<times> world" where
  "queueSMSWithQuietHours e w now data =
     (case checkMessage e w now (j_tenantId data) (j_contactId data) ''sms'' of
        Inl err \<Rightarrow> Inl err
      | Inr complianceResult \<Rightarrow>
          if \<not> cr_approved complianceResult then
            (case cr_checks complianceResult of
               None \<Rightarrow> Inl (TypeError ''Cannot read properties of undefined (reading quietHours)'')
             | Some cks \<Rightarrow>
                 (case cr_contact complianceResult of
                    None \<Rightarrow> Inr (Blocked (cr_reasons complianceResult), w)
                  | Some contact \<Rightarrow>
                      if \<not> ck_quietHours cks then
                        (case checkQuietHours e now contact of
                           Inl err \<Rightarrow> Inl err
                         | Inr quietHoursCheck \<Rightarrow>
                             (case retryAfter quietHoursCheck of
                                None \<Rightarrow> Inr (Blocked (cr_reasons complianceResult), w)
                              | Some retry \<Rightarrow>
                                  (let delay = retry - now
                                   in case queueSMS data delay w of (j, w') \<Rightarrow> Inr (Queued j, w'))))
                      else Inr (Blocked (cr_reasons complianceResult), w)))
          else (case queueSMS data 0 w of (j, w') \<Rightarrow> Inr (Queued j, w')))"

section \<open>The carrier adapter: sending\<close>

text \<open>
  What \<open>sendMessage\<close> returns: \<open>{ success: false, blocked: true, reasons }\<close>,
  \<open>{ success: true, messageId, telnyxId, segments }\<close> or
  \<open>{ success: false, messageId, error }\<close>.
\<close>

datatype send_result =
    SendBlocked "string list"
  | SendOk uuid string int
  | SendFailed uuid string

text \<open>\<open>UPDATE messages SET ... WHERE id = $n\<close>, run for the tenant.\<close>

definition update_message :: "uuid \<Rightarrow> uuid \<Rightarrow> (message \<Rightarrow> message) \<Rightarrow> world \<Rightarrow> world" where
  "update_message tenantId messageId f w =
     w\<lparr>messages := map (\<lambda>m. if m_tenant_id m = tenantId \<and> m_id m = messageId then f m else m)
                      (messages w)\<rparr>"

text \<open>\<open>SELECT sms_phone_number FROM locations WHERE id = $1\<close> and the choice of the sender.\<close>

definition location_from_number :: "world \<Rightarrow> uuid \<Rightarrow> uuid option \<Rightarrow> string option" where
  "location_from_number w tenantId locationId =
     (case locationId of
        None \<Rightarrow> None
      | Some lid \<Rightarrow>
          (case filter (\<lambda>l. l_id l = lid) (tenant_locations w tenantId) of
             [] \<Rightarrow> None
           | l # _ \<Rightarrow> if truthy_str (l_sms_phone_number l) then l_sms_phone_number l else None))"

definition sendMessage ::
  "env \<Rightarrow> world \<Rightarrow> instant \<Rightarrow> sms_job_data \<Rightarrow> error + send_result \<times> world" where
  "sendMessage e w now data =
     (case checkMessage e w now (j_tenantId data) (j_contactId data) ''sms'' of
        Inl err \<Rightarrow> Inl err
      | Inr complianceResult \<Rightarrow>
          if \<not> cr_approved complianceResult then
            Inr (SendBlocked (cr_reasons complianceResult),
                 log_line ''warn'' ''Message blocked by compliance'' w)
          else
            (case cr_contact complianceResult of
               None \<Rightarrow> Inl (TypeError ''Cannot read properties of null (reading state)'')
             | Some contact \<Rightarrow>
                 (case j_content data of
                    None \<Rightarrow> Inl (TypeError ''Cannot read properties of null (reading toLowerCase)'')
                  | Some content \<Rightarrow>
                      (let contentScan = scanContent content (r_state contact);
                           w1 = (if \<not> sc_approved contentScan
                                 then log_line ''warn'' ''Message content flagged'' w else w);
                           fromNumber = location_from_number w1 (j_tenantId data) (j_locationId data);
                           messageId = next_id w1;
                           w2 = w1\<lparr>messages := messages w1 @
                                  [\<lparr>m_id = messageId, m_tenant_id = j_tenantId data,
                                    m_campaign_id = j_campaignId data,
                                    m_contact_id = Some (j_contactId data),
                                    m_location_id = j_locationId data,
                                    m_type = ''sms'', m_direction = ''outbound'',
                                    m_to_address = c_phone (r_contact contact),
                                    m_from_address = fromNumber, m_content = content,
                                    m_status = ''queued'', m_status_updated_at = None,
                                    m_provider = Some ''telnyx'', m_provider_message_id = None,
                                    m_provider_status = None, m_provider_error = None,
                                    m_consent_verified_at = Some now,
                                    m_quiet_hours_checked_at = Some now,
                                    m_segments = 1, m_sent_at = None, m_delivered_at = None,
                                    m_created_at = now\<rparr>],
                                  next_id := Suc (next_id w1)\<rparr>;
                           telnyxParams =
                             (if fromNumber \<noteq> None
                              then \<lparr>tp_to = c_phone (r_contact contact), tp_text = content,
                                    tp_from = fromNumber, tp_messaging_profile_id = None\<rparr>
                              else \<lparr>tp_to = c_phone (r_contact contact), tp_text = content,
                                    tp_from = None,
                                    tp_messaging_profile_id = messagingProfileId (config e)\<rparr>)
                       in case messages_create e telnyxParams of
                            Inr response \<Rightarrow>
                              (let segments = (case tr_parts response of
                                                 None \<Rightarrow> 1
                                               | Some parts \<Rightarrow> if parts = 0 then 1 else parts);
                                   w3 = update_message (j_tenantId data) messageId
                                          (\<lambda>m. m\<lparr>m_provider_message_id := Some (tr_id response),
                                                  m_status := ''sent'', m_sent_at := Some now,
                                                  m_segments := segments\<rparr>) w2;
                                   w4 = log_line ''info'' ''SMS sent successfully'' w3
                               in Inr (SendOk messageId (tr_id response) segments, w4))
                          | Inl errorMessage \<Rightarrow>
                              (let w3 = update_message (j_tenantId data) messageId
                                          (\<lambda>m. m\<lparr>m_status := ''failed'',
                                                  m_provider_error := Some errorMessage\<rparr>) w2;
                                   w4 = log_line ''error'' ''SMS send failed'' w3
                               in Inr (SendFailed messageId errorMessage, w4))))))"

section \<open>The SMS worker\<close>

text \<open>
  The processor that \<open>startSMSWorker\<close> gives to the queue. A job ends in a returned result
  (the queue marks it completed) or in a thrown error (the queue retries it).
  \<^verbatim>\<open>
  const result = await telnyxService.sendMessage({ tenantId, contactId, locationId, content, campaignId });
  if (!result.success && result.blocked) {
    // Don't retry if blocked by compliance
    logger.warn('SMS blocked by compliance', { jobId: job.id, reasons: result.reasons });
    return result;
  }
  if (!result.success) { throw new Error(result.error || 'SMS send failed'); }
  return result;
  \<close>
\<close>

datatype worker_outcome = Completed send_result | Thrown error

definition smsWorkerProcessor :: "env \<Rightarrow> world \<Rightarrow> instant \<Rightarrow> job \<Rightarrow> worker_outcome \<times> world" where
  "smsWorkerProcessor e w now j =
     (let w0 = log_line ''info'' ''Processing SMS job'' w
      in case sendMessage e w0 now (job_data j) of
           Inl err \<Rightarrow> (Thrown err, w0)
         | Inr (result, w1) \<Rightarrow>
             (case result of
                SendBlocked rs \<Rightarrow>
                  (Completed result, log_line ''warn'' ''SMS blocked by compliance'' w1)
              | SendFailed messageId errorMessage \<Rightarrow>
                  (Thrown (Error (if errorMessage = [] then ''SMS send failed'' else errorMessage)), w1)
              | SendOk messageId telnyxId segments \<Rightarrow> (Completed result, w1)))"

section \<open>The carrier adapter: status updates\<close>

text \<open>
  \<^verbatim>\<open>
  const statusMap = { 'queued': 'queued', 'sending': 'sending', 'sent': 'sent',
    'delivered': 'delivered', 'delivery_failed': 'failed', 'delivery_unconfirmed': 'sent' };
  const mappedStatus = statusMap[status] || status;
  \<close>
  \<open>statusMap\<close> is an object literal: \<open>statusMap[status]\<close> answers for its six own
  properties and for the names that every object inherits from \<open>Object.prototype\<close>.
  An inherited property is a function or an object, hence truthy, and then
  \<open>mappedStatus\<close> is that value and not a string.
\<close>

datatype js_value = Str string | Inherited string

definition object_prototype_names :: "string list" where
  "object_prototype_names =
     [''constructor'', ''__defineGetter__'', ''__defineSetter__'', ''hasOwnProperty'',
      ''__lookupGetter__'', ''__lookupSetter__'', ''isPrototypeOf'', ''propertyIsEnumerable'',
      ''toString'', ''valueOf'', ''__proto__'', ''toLocaleString'']"

definition statusMap :: "(string \<times> string) list" where
  "statusMap =
     [(''queued'', ''queued''), (''sending'', ''sending''), (''sent'', ''sent''),
      (''delivered'', ''delivered''), (''delivery_failed'', ''failed''),
      (''delivery_unconfirmed'', ''sent'')]"

definition mappedStatus :: "string \<Rightarrow> js_value" where
  "mappedStatus status =
     (case map_of statusMap status of
        Some v \<Rightarrow> if v = [] then Str status else Str v
      | None \<Rightarrow> if status \<in> set object_prototype_names then Inherited status else Str status)"

text \<open>The text that the database driver sends for a query parameter.\<close>

definition prepareValue :: "env \<Rightarrow> js_value \<Rightarrow> string" where
  "prepareValue e v = (case v of Str s \<Rightarrow> s | Inherited name \<Rightarrow> prepareInherited e name)"

text \<open>
  \<^verbatim>\<open>
  const fieldMap = { 'sent': 'sent_count', 'delivered': 'delivered_count', 'failed': 'failed_count' };
  const field = fieldMap[status];
  if (!field) return;
  UPDATE campaigns SET ${field} = ${field} + 1 WHERE id = $1
  \<close>
  For a status string that names an inherited property the field is a function or an
  object, and the text of the statement is no SQL. An inherited value used as the key is
  converted to a string that names no property.
\<close>

definition update_campaign :: "uuid \<Rightarrow> uuid \<Rightarrow> (campaign \<Rightarrow> campaign) \<Rightarrow> world \<Rightarrow> world" where
  "update_campaign tenantId campaignId f w =
     w\<lparr>campaigns := map (\<lambda>c. if cp_tenant_id c = tenantId \<and> cp_id c = campaignId then f c else c)
                       (campaigns w)\<rparr>"

definition updateCampaignStats :: "world \<Rightarrow> uuid \<Rightarrow> uuid \<Rightarrow> js_value \<Rightarrow> error + world" where
  "updateCampaignStats w tenantId campaignId status =
     (case status of
        Inherited name \<Rightarrow> Inr w
      | Str s \<Rightarrow>
          if s = ''sent''
          then Inr (update_campaign tenantId campaignId
                      (\<lambda>c. c\<lparr>cp_sent_count := cp_sent_count c + 1\<rparr>) w)
          else if s = ''delivered''
          then Inr (update_campaign tenantId campaignId
                      (\<lambda>c. c\<lparr>cp_delivered_count := cp_delivered_count c + 1\<rparr>) w)
          else if s = ''failed''
          then Inr (update_campaign tenantId campaignId
                      (\<lambda>c. c\<lparr>cp_failed_count := cp_failed_count c + 1\<rparr>) w)
          else if s \<in> set object_prototype_names
          then Inl (DatabaseError ''syntax error'')
          else Inr w)"

text \<open>
  \<^verbatim>\<open>
  UPDATE messages SET status = $1, provider_status = $2, provider_error = $3,
    status_updated_at = NOW(),
    delivered_at = CASE WHEN $1 = 'delivered' THEN NOW() ELSE delivered_at END
  WHERE provider_message_id = $4
  RETURNING id, tenant_id, campaign_id
  \<close>
  The statement is sent with untyped parameters and is subject to the schema of
  \<open>messages\<close>:
  \<^item> \<open>$1\<close> is assigned to the column \<open>status VARCHAR(30)\<close> and compared with a text
    literal, so two types are deduced for it; \<open>mixed_parameter_ok\<close> of the environment
    says whether the server executes such a statement or refuses it;
  \<^item> a value assigned to a \<open>VARCHAR(n)\<close> column that is longer than \<open>n\<close> raises, unless
    the excess is spaces, which are cut (\<open>status\<close> has 30, \<open>provider_status\<close> 50);
  \<^item> \<open>status\<close> has a \<open>CHECK\<close> constraint: a row can only take one of nine statuses, and
    a statement that would give a row another status raises and changes nothing.
  The statement runs without a tenant and is taken to reach the rows of every tenant.
  A row whose \<open>provider_message_id\<close> is \<open>null\<close> matches no parameter, and a \<open>null\<close>
  parameter matches no row.
\<close>

definition message_statuses :: "string list" where
  "message_statuses =
     [''queued'', ''sending'', ''sent'', ''delivered'', ''failed'',
      ''bounced'', ''complained'', ''opened'', ''clicked'']"

definition varchar_assign :: "nat \<Rightarrow> string \<Rightarrow> error + string" where
  "varchar_assign n s =
     (if length s \<le> n then Inr s
      else if list_all (\<lambda>c. c = CHR '' '') (drop n s) then Inr (take n s)
      else Inl (DatabaseError ''value too long for type character varying''))"

definition status_hit :: "string option \<Rightarrow> message \<Rightarrow> bool" where
  "status_hit telnyxMessageId m \<longleftrightarrow>
     (case telnyxMessageId of
        None \<Rightarrow> False
      | Some pid \<Rightarrow> m_provider_message_id m = Some pid)"

definition update_status_statement ::
  "env \<Rightarrow> world \<Rightarrow> instant \<Rightarrow> string \<Rightarrow> string \<Rightarrow> string option \<Rightarrow> string option
     \<Rightarrow> error + message list \<times> world" where
  "update_status_statement e w now p1 p2 p3 p4 =
     (if \<not> mixed_parameter_ok e
      then Inl (DatabaseError ''inconsistent types deduced for parameter $1'')
      else case varchar_assign 30 p1 of
             Inl err \<Rightarrow> Inl err
           | Inr status_value \<Rightarrow>
               (case varchar_assign 50 p2 of
                  Inl err \<Rightarrow> Inl err
                | Inr provider_status_value \<Rightarrow>
                    if filter (status_hit p4) (messages w) \<noteq> []
                       \<and> status_value \<notin> set message_statuses
                    then Inl (DatabaseError ''violates check constraint messages_status_check'')
                    else
                      (let w1 = w\<lparr>messages :=
                                  map (\<lambda>m. if status_hit p4 m
                                           then m\<lparr>m_status := status_value,
                                                  m_provider_status := Some provider_status_value,
                                                  m_provider_error := p3,
                                                  m_status_updated_at := Some now,
                                                  m_delivered_at :=
                                                    (if p1 = ''delivered'' then Some now
                                                     else m_delivered_at m)\<rparr>
                                           else m)
                                    (messages w)\<rparr>
                       in Inr (filter (status_hit p4) (messages w1), w1))))"

text \<open>
  \<open>updateMessageStatus\<close> returns the first row that was updated, if there is one, or
  throws what the statement raised; the world it leaves is returned in both cases.
\<close>

definition updateMessageStatus ::
  "env \<Rightarrow> world \<Rightarrow> instant \<Rightarrow> string option \<Rightarrow> string \<Rightarrow> string option
     \<Rightarrow> (error + message option) \<times> world" where
  "updateMessageStatus e w now telnyxMessageId status errorMessage =
     (let mapped = mappedStatus status
      in case update_status_statement e w now (prepareValue e mapped) status errorMessage
                telnyxMessageId of
           Inl err \<Rightarrow> (Inl err, w)
         | Inr (rows, w1) \<Rightarrow>
             (case rows of
                [] \<Rightarrow> (Inr None, w1)
              | row # _ \<Rightarrow>
                  (case m_campaign_id row of
                     None \<Rightarrow> (Inr (Some row), log_line ''info'' ''Message status updated'' w1)
                   | Some campaign_id \<Rightarrow>
                       (case updateCampaignStats w1 (m_tenant_id row) campaign_id mapped of
                          Inl err \<Rightarrow> (Inl err, w1)
                        | Inr w2 \<Rightarrow>
                            (Inr (Some row), log_line ''info'' ''Message status updated'' w2)))))"


section \<open>The webhook handlers of the status events\<close>

text \<open>
  The fields of a webhook payload that the handlers read: \<open>id\<close>, \<open>to[0].status\<close>,
  \<open>errors[0].title\<close> and \<open>errors[0].detail\<close>.
\<close>

record payload =
  p_id :: "string option"
  p_to_status :: "string option"
  p_error_title :: "string option"
  p_error_detail :: "string option"



definition handleMessageFinalized ::
  "env \<Rightarrow> world \<Rightarrow> instant \<Rightarrow> payload \<Rightarrow> (error + message option) \<times> world" where
  "handleMessageFinalized e w now p =
     (let status = or_else (p_to_status p) ''unknown''
      in updateMessageStatus e w now (p_id p)
           (if status = ''delivered'' then ''delivered'' else ''sent'') (p_error_title p))"

definition handleMessageFailed ::
  "env \<Rightarrow> world \<Rightarrow> instant \<Rightarrow> payload \<Rightarrow> (error + message option) \<times> world" where
  "handleMessageFailed e w now p =
     updateMessageStatus e w now (p_id p) ''failed''
       (if truthy_str (p_error_title p) then p_error_title p else p_error_detail p)"

section \<open>The campaign worker\<close>

text \<open>
  The conditions of the recipient query are SQL conditions: a comparison with \<open>null\<close> is
  unknown (\<open>None\<close>), \<open>AND\<close> is the conjunction of the three-valued logic, and \<open>WHERE\<close>
  keeps the rows whose condition is true.
\<close>

type_synonym sqlbool = "bool option"

definition sql_and :: "sqlbool \<Rightarrow> sqlbool \<Rightarrow> sqlbool" where
  "sql_and a b =
     (if a = Some False \<or> b = Some False then Some False
      else if a = None \<or> b = None then None
      else Some True)"

definition sql_eq :: "'a option \<Rightarrow> 'a \<Rightarrow> sqlbool" where
  "sql_eq a v = (case a of None \<Rightarrow> None | Some x \<Rightarrow> Some (x = v))"

text \<open>\<open>x = ANY(array)\<close> and \<open>a && array\<close> for an array parameter that is not empty and has
  no \<open>null\<close> element.\<close>

definition sql_any :: "'a option \<Rightarrow> 'a list \<Rightarrow> sqlbool" where
  "sql_any a vs = (case a of None \<Rightarrow> None | Some x \<Rightarrow> Some (x \<in> set vs))"

definition sql_overlap :: "'a list option \<Rightarrow> 'a list \<Rightarrow> sqlbool" where
  "sql_overlap a vs = (case a of None \<Rightarrow> None | Some xs \<Rightarrow> Some (list_ex (\<lambda>x. x \<in> set vs) xs))"

text \<open>
  \<^verbatim>\<open>
  let recipientQuery = `SELECT c.id, c.phone, c.email, c.primary_location_id
    FROM contacts c WHERE c.tenant_id = $1`;
  if (campaign.type === 'sms' || campaign.type === 'both')
    recipientQuery += ` AND c.sms_consent = TRUE AND c.sms_opted_out = FALSE`;
  if (campaign.type === 'email' || campaign.type === 'both')
    recipientQuery += ` AND c.email_consent = TRUE AND c.email_opted_out = FALSE`;
  recipientQuery += ` AND c.age_verified = TRUE`;
  if (campaign.target_locations && campaign.target_locations.length > 0)
    recipientQuery += ` AND c.primary_location_id = ANY($n)`;
  if (campaign.target_tags && campaign.target_tags.length > 0)
    recipientQuery += ` AND c.tags && $n`;
  \<close>
  The condition is built as the query text is, one conjunct after the other.
\<close>

definition recipient_condition :: "uuid \<Rightarrow> campaign \<Rightarrow> contact \<Rightarrow> sqlbool" where
  "recipient_condition tenantId campaign c =
     (let q1 = sql_eq (Some (c_tenant_id c)) tenantId;
          q2 = (if cp_type campaign = ''sms'' \<or> cp_type campaign = ''both''
                then sql_and (sql_and q1 (sql_eq (c_sms_consent c) True))
                       (sql_eq (c_sms_opted_out c) False)
                else q1);
          q3 = (if cp_type campaign = ''email'' \<or> cp_type campaign = ''both''
                then sql_and (sql_and q2 (sql_eq (c_email_consent c) True))
                       (sql_eq (c_email_opted_out c) False)
                else q2);
          q4 = sql_and q3 (sql_eq (c_age_verified c) True);
          q5 = (case cp_target_locations campaign of
                  None \<Rightarrow> q4
                | Some ls \<Rightarrow> if length ls > 0 then sql_and q4 (sql_any (c_primary_location_id c) ls)
                             else q4);
          q6 = (case cp_target_tags campaign of
                  None \<Rightarrow> q5
                | Some ts \<Rightarrow> if length ts > 0 then sql_and q5 (sql_overlap (c_tags c) ts) else q5)
      in q6)"

definition recipient_query :: "world \<Rightarrow> uuid \<Rightarrow> campaign \<Rightarrow> contact list" where
  "recipient_query w tenantId campaign =
     filter (\<lambda>c. recipient_condition tenantId campaign c = Some True) (tenant_contacts w tenantId)"

text \<open>
  The loop over the recipients: one call of \<open>queueSMSWithQuietHours\<close> for every recipient
  with a phone, when the campaign type is \<open>sms\<close>. An error that a call throws ends the
  loop; the jobs queued before it stay.
\<close>

fun queue_recipients ::
  "env \<Rightarrow> instant \<Rightarrow> uuid \<Rightarrow> campaign \<Rightarrow> contact list \<Rightarrow> world \<Rightarrow> error option \<times> world" where
  "queue_recipients e now tenantId campaign [] w = (None, w)"
| "queue_recipients e now tenantId campaign (recipient # rest) w =
     (if cp_type campaign = ''sms'' \<and> truthy_str (c_phone recipient) then
        (case queueSMSWithQuietHours e w now
                \<lparr>j_tenantId = tenantId, j_contactId = c_id recipient,
                 j_locationId = c_primary_location_id recipient,
                 j_content = cp_sms_content campaign, j_campaignId = Some (cp_id campaign)\<rparr> of
           Inl err \<Rightarrow> (Some err, w)
         | Inr (outcome, w') \<Rightarrow> queue_recipients e now tenantId campaign rest w')
      else queue_recipients e now tenantId campaign rest w)"

text \<open>The processor that \<open>startCampaignWorker\<close> gives to the queue; it returns the number
  of recipients or throws.\<close>

definition campaignWorkerProcessor ::
  "env \<Rightarrow> world \<Rightarrow> instant \<Rightarrow> uuid \<Rightarrow> uuid \<Rightarrow> (error + nat) \<times> world" where
  "campaignWorkerProcessor e w now tenantId campaignId =
     (let w0 = log_line ''info'' ''Processing campaign'' w
      in case filter (\<lambda>c. cp_id c = campaignId) (tenant_campaigns w0 tenantId) of
           [] \<Rightarrow> (Inl (Error ''Campaign not found''), w0)
         | campaign # _ \<Rightarrow>
             (let recipients = recipient_query w0 tenantId campaign;
                  w1 = log_line ''info'' ''Campaign recipients found'' w0;
                  w2 = update_campaign tenantId campaignId
                         (\<lambda>c. c\<lparr>cp_status := ''sending'',
                                 cp_total_recipients := int (length recipients),
                                 cp_started_at := Some now\<rparr>) w1
              in case queue_recipients e now tenantId campaign recipients w2 of
                   (Some err, w3) \<Rightarrow> (Inl err, w3)
                 | (None, w3) \<Rightarrow>
                     (let w4 = update_campaign tenantId campaignId
                                 (\<lambda>c. c\<lparr>cp_status := ''sent'', cp_completed_at := Some now\<rparr>) w3
                      in (Inr (length recipients), w4))))"

section \<open>The status map in the words of the specification\<close>


section \<open>The recipient set and the end of the quiet window in the words of the specification\<close>

text \<open>
  The recipient set of a campaign: the contacts of the tenant with \<open>age_verified\<close> true,
  with \<open>sms_consent\<close> true and \<open>sms_opted_out\<close> false when the campaign kind touches
  SMS (the same for email), whose primary location is in \<open>target_locations\<close> when that
  set is not empty, and whose tags meet \<open>target_tags\<close> when that set is not empty.
\<close>

definition touches_sms :: "campaign \<Rightarrow> bool" where
  "touches_sms campaign \<longleftrightarrow> cp_type campaign = ''sms'' \<or> cp_type campaign = ''both''"

definition touches_email :: "campaign \<Rightarrow> bool" where
  "touches_email campaign \<longleftrightarrow> cp_type campaign = ''email'' \<or> cp_type campaign = ''both''"

definition spec_recipient :: "uuid \<Rightarrow> campaign \<Rightarrow> contact \<Rightarrow> bool" where
  "spec_recipient tenantId campaign c \<longleftrightarrow>
     c_tenant_id c = tenantId \<and> c_age_verified c = Some True
     \<and> (if touches_sms campaign then c_sms_consent c = Some True \<and> c_sms_opted_out c = Some False
         else True)
     \<and> (if touches_email campaign
         then c_email_consent c = Some True \<and> c_email_opted_out c = Some False else True)
     \<and> (case cp_target_locations campaign of
           None \<Rightarrow> True
         | Some ls \<Rightarrow> if ls = [] then True else (\<exists>l \<in> set ls. c_primary_location_id c = Some l))
     \<and> (case cp_target_tags campaign of
           None \<Rightarrow> True
         | Some ts \<Rightarrow> if ts = [] then True
                      else (\<exists>tags. c_tags c = Some tags \<and> set tags \<inter> set ts \<noteq> {}))"

text \<open>
  The next occurrence of the end boundary \<open>h:m\<close> strictly after \<open>now\<close>, as a UTC
  instant, in a zone that is \<open>off\<close> minutes ahead of UTC: the boundary of the current
  day of the zone when it is still to come, the boundary of the next day otherwise.
\<close>

definition spec_next_end :: "int \<Rightarrow> int \<Rightarrow> int \<Rightarrow> instant \<Rightarrow> instant" where
  "spec_next_end off h m now =
     (let local = now + off * 60000;
          end_today = (local div 86400000) * 86400000 + h * 3600000 + m * 60000;
          next_end = (if local < end_today then end_today else end_today + 86400000)
      in next_end - off * 60000)"

text \<open>
  The wall clock that \<open>getQuietHoursEnd\<close> reaches with \<open>.hour(h).minute(m).second(0)\<close>
  in a zone \<open>off\<close> minutes ahead of UTC, and the text of a configured time \<open>HH:MM\<close>.
\<close>

definition code_end_today :: "int \<Rightarrow> int \<Rightarrow> int \<Rightarrow> instant \<Rightarrow> int" where
  "code_end_today off h m now =
     ((now + off * 60000) div 86400000) * 86400000 + h * 3600000 + m * 60000
       + (now + off * 60000) mod 1000"

definition hhmm :: "nat \<Rightarrow> nat \<Rightarrow> string" where
  "hhmm h m = padStart2 (show_nat h) @ '':'' @ padStart2 (show_nat m)"

section \<open>Example data\<close>

text \<open>
  A process with the default configuration, two zones with the offsets they have in
  November, and a carrier that accepts every message. Tenant 1 has three contacts:
  \<open>alice\<close> may be sent SMS, \<open>bob\<close> has given no consent, \<open>carol\<close> is \<open>alice\<close> without a
  zone of her own. The instants are 2026-11-03 22:00:00.500 UTC, 2026-11-03 18:00:00 UTC
  and 2026-11-04 06:00:00.500 UTC (22:00:00.500 of 3 November in Los Angeles).
\<close>

definition env0 :: env where
  "env0 =
     \<lparr>config =
        \<lparr>quietHours_start = ''21:00'', quietHours_end = ''08:00'',
         maxMessagesPerDayPerRecipient = 3,
         optOutKeywords = [''STOP'', ''UNSUBSCRIBE'', ''CANCEL'', ''END'', ''QUIT''],
         optInKeywords = [''START'', ''YES'', ''SUBSCRIBE'', ''UNSTOP''],
         messagingProfileId = Some ''profile-1''\<rparr>,
      utcOffset = (\<lambda>tz t. if tz = ''UTC'' then Some 0
                          else if tz = ''America/Los_Angeles'' then Some (- 480)
                          else None),
      diffYears = (\<lambda>a b. (a - b) div 31557600000),
      messages_create = (\<lambda>p. Inr \<lparr>tr_id = ''tx-1'', tr_parts = Some 1\<rparr>),
      mixed_parameter_ok = True,
      prepareInherited =
        (\<lambda>name. if name = ''__proto__'' then ''{}''
                else if name = ''constructor'' then ''function Object() { [native code] }''
                else ''function '' @ name @ ''() { [native code] }'')\<rparr>"


definition alice :: contact where
  "alice =
     \<lparr>c_id = 1, c_tenant_id = 1, c_phone = Some ''+14155551212'', c_email = None,
      c_primary_location_id = None,
      c_sms_consent = Some True, c_sms_consent_at = Some 1700000000000,
      c_sms_opted_out = Some False, c_sms_opted_out_at = None,
      c_email_consent = Some False, c_email_consent_at = None,
      c_email_opted_out = Some False, c_email_opted_out_at = None,
      c_age_verified = Some True, c_date_of_birth = None,
      c_tags = Some [''vip''], c_timezone = Some ''UTC''\<rparr>"

definition bob :: contact where
  "bob = alice\<lparr>c_id := 2, c_phone := Some ''+14155550000'', c_sms_consent := Some False,
               c_sms_consent_at := None, c_tags := Some []\<rparr>"

definition carol :: contact where
  "carol = alice\<lparr>c_id := 3, c_phone := Some ''+14155553333'', c_timezone := None\<rparr>"

definition world0 :: world where
  "world0 =
     \<lparr>contacts = [alice, bob, carol], locations = [], campaigns = [], messages = [],
      opt_out_log = [], global_opt_outs = [], smsQueue = [], logger = [], next_id = 100\<rparr>"

definition night :: instant where
  "night = 1793743200500"

definition day :: instant where
  "day = 1793728800000"

definition night_la :: instant where
  "night_la = 1793772000500"

definition row_of :: "contact \<Rightarrow> contact_row" where
  "row_of c = \<lparr>r_contact = c, r_state = None, r_location_timezone = None\<rparr>"

definition job_data_for :: "contact \<Rightarrow> sms_job_data" where
  "job_data_for c =
     \<lparr>j_tenantId = c_tenant_id c, j_contactId = c_id c, j_locationId = None,
      j_content = Some ''Hello'', j_campaignId = None\<rparr>"

definition job_for :: "contact \<Rightarrow> job" where
  "job_for c =
     \<lparr>job_id = 7, job_name = ''send-sms'', job_data = job_data_for c, job_delay = 0,
      job_attempts = 3, job_backoff_type = ''exponential'', job_backoff_delay = 5000\<rparr>"

text \<open>What \<open>checkMessage\<close> returns for \<open>bob\<close> at \<open>night\<close>.\<close>

definition bob_night_result :: compliance_result where
  "bob_night_result =
     \<lparr>cr_approved = False,
      cr_reasons = [''No SMS consent on file'', ''Quiet hours in effect (21:00 - 08:00 UTC)''],
      cr_contact = Some (row_of bob),
      cr_checks = Some \<lparr>ck_consent = False, ck_optOut = True, ck_ageVerification = True,
                        ck_quietHours = False, ck_rateLimit = True, ck_stateRules = True\<rparr>\<rparr>"






text \<open>
  Two more contacts of tenant 1 (\<open>dave\<close> has opted out of SMS, \<open>erin\<close> does not carry
  the tag \<open>vip\<close>), a campaign for the tag \<open>vip\<close>, the job that is queued for \<open>bob\<close> at
  \<open>night\<close>, and the payload of a send request for a contact that does not exist.
\<close>

definition dave :: contact where
  "dave = alice\<lparr>c_id := 4, c_phone := Some ''+14155554444'', c_sms_opted_out := Some True,
                c_sms_opted_out_at := Some 1700000500000\<rparr>"

definition erin :: contact where
  "erin = alice\<lparr>c_id := 5, c_phone := Some ''+14155555555'', c_tags := Some [''new'']\<rparr>"

definition world_vip :: world where
  "world_vip = world0\<lparr>contacts := [alice, dave, erin]\<rparr>"

definition campaign_vip :: campaign where
  "campaign_vip =
     \<lparr>cp_id = 9, cp_tenant_id = 1, cp_type = ''sms'', cp_status = ''scheduled'',
      cp_sms_content = Some ''Sale today'', cp_target_locations = Some [],
      cp_target_tags = Some [''vip''], cp_total_recipients = 0, cp_sent_count = 0,
      cp_delivered_count = 0, cp_failed_count = 0, cp_started_at = None, cp_completed_at = None\<rparr>"

definition bob_job :: job where
  "bob_job =
     \<lparr>job_id = 100, job_name = ''send-sms'', job_data = job_data_for bob, job_delay = 36000000,
      job_attempts = 3, job_backoff_type = ''exponential'', job_backoff_delay = 5000\<rparr>"

definition job_data_unknown :: sms_job_data where
  "job_data_unknown =
     \<lparr>j_tenantId = 1, j_contactId = 99, j_locationId = None, j_content = Some ''Hello'',
      j_campaignId = None\<rparr>"

section \<open>Properties of the phone normalizer\<close>

lemma replace_non_digits_filter: "replace_non_digits s = filter isDigit s"
  by (induction s) simp_all

lemma isDigit_plus: "\<not> isDigit (CHR ''+'')"
  by (simp add: isDigit_def)

lemma isDigit_one: "isDigit (CHR ''1'')"
  by (simp add: isDigit_def)

lemma normalizePhone_digits:
  "filter isDigit (normalizePhone s) =
     (if length (filter isDigit s) = 10 then CHR ''1'' # filter isDigit s else filter isDigit s)"
  by (simp add: normalizePhone_def replace_non_digits_filter isDigit_plus isDigit_one)

text \<open>
  Claim C8. For every input string the phone normalizer returns \<open>+\<close> followed by the
  digit characters of the input in their order, with a leading \<open>1\<close> put in front of them
  when the input holds exactly ten digits. The function is total on strings: it has no
  failing branch, so the result is a string for every input.
\<close>

theorem normalizePhone_spec:
  "normalizePhone s =
     (if length (filter isDigit s) = 10
      then CHR ''+'' # CHR ''1'' # filter isDigit s
      else CHR ''+'' # filter isDigit s)"
  by (simp add: normalizePhone_def replace_non_digits_filter)

theorem normalizePhone_spec_witness:
  "normalizePhone ''(415) 555-1212'' = ''+14155551212'' \<and>
   normalizePhone ''+44 20 7946 0958'' = ''+442079460958'' \<and>
   normalizePhone ''junk'' = ''+''"
  using normalizePhone_spec [of "''(415) 555-1212''"]
    normalizePhone_spec [of "''+44 20 7946 0958''"]
    normalizePhone_spec [of "''junk''"]
  by (simp add: isDigit_def)

text \<open>
  Claim C10. The phone normalizer is idempotent: normalizing an already normalized
  number gives the same number.
\<close>

theorem normalizePhone_idempotent:
  "normalizePhone (normalizePhone s) = normalizePhone s"
proof (cases "length (filter isDigit s) = 10")
  case True
  then have "length (filter isDigit (normalizePhone s)) = 11"
    by (simp add: normalizePhone_digits)
  then show ?thesis
    using True
    by (simp add: normalizePhone_def replace_non_digits_filter isDigit_plus isDigit_one)
next
  case False
  then have "length (filter isDigit (normalizePhone s)) \<noteq> 10"
    by (simp add: normalizePhone_digits)
  then show ?thesis
    using False
    by (simp add: normalizePhone_def replace_non_digits_filter isDigit_plus)
qed

theorem normalizePhone_idempotent_witness:
  "normalizePhone (normalizePhone ''415-555-1212'') = ''+14155551212''"
  using normalizePhone_idempotent [of "''415-555-1212''"]
  by (simp add: normalizePhone_def isDigit_def)

section \<open>Properties of the compliance checks\<close>

lemma push_reasons_pass: "push_reasons rs pass = rs"
  by (simp add: push_reasons_def pass_def)

lemma push_reasons_fail: "push_reasons rs (fail r) = rs @ [r]"
  by (simp add: push_reasons_def fail_def)

lemma reasons_pass: "reasons pass = []"
  by (simp add: pass_def)

lemma reasons_fail: "reasons (fail r) = [r]"
  by (simp add: fail_def)

lemma push_checkConsent: "push_reasons rs (checkConsent c t) = rs @ reasons (checkConsent c t)"
  by (simp add: checkConsent_def push_reasons_pass push_reasons_fail reasons_pass reasons_fail)

lemma push_checkOptOut: "push_reasons rs (checkOptOut c t) = rs @ reasons (checkOptOut c t)"
  by (simp add: checkOptOut_def push_reasons_pass push_reasons_fail reasons_pass reasons_fail)

lemma push_checkAgeVerification:
  "push_reasons rs (checkAgeVerification e now c) = rs @ reasons (checkAgeVerification e now c)"
  by (simp add: checkAgeVerification_def Let_def push_reasons_pass push_reasons_fail reasons_pass
      reasons_fail split: option.splits)

lemma push_checkGlobalOptOut:
  "push_reasons rs (checkGlobalOptOut w p) = rs @ reasons (checkGlobalOptOut w p)"
  by (simp add: checkGlobalOptOut_def Let_def push_reasons_pass push_reasons_fail reasons_pass
      reasons_fail)

lemma push_checkRateLimit:
  "push_reasons rs (checkRateLimit e w now t c ty) = rs @ reasons (checkRateLimit e w now t c ty)"
  by (simp add: checkRateLimit_def Let_def push_reasons_pass push_reasons_fail reasons_pass
      reasons_fail)

lemma push_checkStateRules:
  "push_reasons rs (checkStateRules s ty) = rs @ reasons (checkStateRules s ty)"
  by (simp add: checkStateRules_def push_reasons_pass reasons_pass)

lemma push_checkQuietHours:
  "checkQuietHours e now c = Inr q \<Longrightarrow> push_reasons rs q = rs @ reasons q"
  by (auto simp: checkQuietHours_def Let_def push_reasons_def pass_def
      split: sum.splits if_splits)

lemma checkMessage_reasons:
  assumes "contact_query w tenantId contactId = contact # rest"
    and "checkMessage e w now tenantId contactId ''sms'' = Inr result"
  shows "\<exists>q. checkQuietHours e now contact = Inr q \<and>
           cr_reasons result =
             reasons (checkConsent contact ''sms'')
             @ reasons (checkOptOut contact ''sms'')
             @ reasons (checkAgeVerification e now contact)
             @ (case c_phone (r_contact contact) of
                  None \<Rightarrow> []
                | Some phone \<Rightarrow> if phone = [] then [] else reasons (checkGlobalOptOut w phone))
             @ reasons q
             @ reasons (checkRateLimit e w now tenantId contactId ''sms'')
             @ reasons (checkStateRules (r_state contact) ''sms'')"
proof (cases "checkQuietHours e now contact")
  case (Inl err)
  with assms show ?thesis
    by (simp add: checkMessage_def Let_def)
next
  case (Inr q)
  note pq = push_checkQuietHours [OF Inr]
  from assms Inr show ?thesis
    by (cases "c_phone (r_contact contact)")
       (auto simp: checkMessage_def Let_def push_checkConsent push_checkOptOut
          push_checkAgeVerification push_checkGlobalOptOut push_checkRateLimit
          push_checkStateRules pq)
qed


lemma checkConsent_no_flag:
  "\<not> truthy (c_sms_consent (r_contact contact)) \<Longrightarrow>
     checkConsent contact ''sms'' = fail ''No SMS consent on file''"
  by (simp add: checkConsent_def)

lemma checkConsent_no_timestamp:
  "truthy (c_sms_consent (r_contact contact)) \<Longrightarrow> c_sms_consent_at (r_contact contact) = None \<Longrightarrow>
     checkConsent contact ''sms'' = fail ''SMS consent timestamp missing''"
  by (simp add: checkConsent_def)

text \<open>
  Claim C4 says that a contact with \<open>sms_consent\<close> false and \<open>sms_consent_at\<close> null gets
  two reasons from the consent check. \<open>checkConsent\<close> returns at the first missing field:
  for \<open>bob\<close> the only reason is the one for the flag, and the caller sees that one.
\<close>

theorem consent_both_missing_counterexample:
  "c_sms_consent bob = Some False \<and> c_sms_consent_at bob = None \<and>
   reasons (checkConsent (row_of bob) ''sms'') = [''No SMS consent on file''] \<and>
   ''SMS consent timestamp missing'' \<notin> set (reasons (checkConsent (row_of bob) ''sms'')) \<and>
   map_sum id cr_reasons (checkMessage env0 world0 day 1 2 ''sms'') = Inr [''No SMS consent on file'']"
  by code_simp

text \<open>
  Claim C4, as amended. For a contact whose \<open>sms_consent\<close> is not true the consent check
  contributes exactly one reason, \<open>No SMS consent on file\<close>, whatever \<open>sms_consent_at\<close>
  is (the reason for the timestamp is given only when the flag is true). The checks of
  \<open>checkMessage\<close> do run without short-circuit: the reasons that the caller sees are
  the reason of the consent check followed by the reasons of the opt-out, age, global
  opt-out, quiet hours, rate limit and state checks.
\<close>

theorem consent_one_reason:
  assumes "contact_query w tenantId contactId = contact # rest"
    and "\<not> truthy (c_sms_consent (r_contact contact))"
    and "checkMessage e w now tenantId contactId ''sms'' = Inr result"
  shows "reasons (checkConsent contact ''sms'') = [''No SMS consent on file''] \<and>
         (\<exists>q. checkQuietHours e now contact = Inr q \<and>
            cr_reasons result =
              [''No SMS consent on file'']
              @ reasons (checkOptOut contact ''sms'')
              @ reasons (checkAgeVerification e now contact)
              @ (case c_phone (r_contact contact) of
                   None \<Rightarrow> []
                 | Some phone \<Rightarrow> if phone = [] then [] else reasons (checkGlobalOptOut w phone))
              @ reasons q
              @ reasons (checkRateLimit e w now tenantId contactId ''sms'')
              @ reasons (checkStateRules (r_state contact) ''sms''))"
  using checkMessage_reasons [OF assms(1) assms(3)] checkConsent_no_flag [OF assms(2)]
  by (simp add: reasons_fail)

theorem consent_one_reason_witness:
  "contact_query world0 1 2 = [row_of bob] \<and>
   \<not> truthy (c_sms_consent (r_contact (row_of bob))) \<and>
   checkMessage env0 world0 night 1 2 ''sms'' = Inr bob_night_result \<and>
   reasons (checkConsent (row_of bob) ''sms'') = [''No SMS consent on file''] \<and>
   cr_reasons bob_night_result =
     [''No SMS consent on file'', ''Quiet hours in effect (21:00 - 08:00 UTC)'']"
proof -
  have h1: "contact_query world0 1 2 = row_of bob # []"
    by code_simp
  have h2: "\<not> truthy (c_sms_consent (r_contact (row_of bob)))"
    by code_simp
  have h3: "checkMessage env0 world0 night 1 2 ''sms'' = Inr bob_night_result"
    by code_simp
  have "cr_reasons bob_night_result =
     [''No SMS consent on file'', ''Quiet hours in effect (21:00 - 08:00 UTC)'']"
    by code_simp
  with consent_one_reason [OF h1 h2 h3] h1 h2 h3 show ?thesis
    by simp
qed

section \<open>Properties of opt-out and opt-in\<close>



section \<open>Properties of the status updates\<close>























section \<open>Properties of the campaign worker\<close>

lemma sql_and_True: "sql_and a b = Some True \<longleftrightarrow> a = Some True \<and> b = Some True"
  by (cases a; cases b) (auto simp: sql_and_def)

lemma sql_eq_True: "sql_eq a v = Some True \<longleftrightarrow> a = Some v"
  by (cases a) (auto simp: sql_eq_def)

lemma sql_any_True: "sql_any a vs = Some True \<longleftrightarrow> (\<exists>x \<in> set vs. a = Some x)"
  by (cases a) (auto simp: sql_any_def)

lemma sql_overlap_True:
  "sql_overlap a vs = Some True \<longleftrightarrow> (\<exists>xs. a = Some xs \<and> set xs \<inter> set vs \<noteq> {})"
  by (cases a) (auto simp: sql_overlap_def list_ex_iff)

lemma recipient_condition_True:
  "recipient_condition tenantId campaign c = Some True \<longleftrightarrow> spec_recipient tenantId campaign c"
  unfolding recipient_condition_def spec_recipient_def touches_sms_def touches_email_def Let_def
  by (cases "cp_target_locations campaign"; cases "cp_target_tags campaign")
     (auto simp: sql_and_True sql_eq_True sql_any_True sql_overlap_True)

text \<open>
  Claim C7. For every campaign expansion, the recipient set is exactly the set of the
  tenant's contacts with \<open>age_verified\<close> true, restricted to \<open>sms_consent\<close> true and
  \<open>sms_opted_out\<close> false when the campaign kind touches SMS (the same for email), to the
  contacts whose primary location is in \<open>target_locations\<close> when that set is not empty,
  and to the contacts whose tags meet \<open>target_tags\<close> when that set is not empty.
\<close>

theorem recipient_query_spec:
  "set (recipient_query w tenantId campaign) =
     {c \<in> set (contacts w). spec_recipient tenantId campaign c}"
  by (auto simp: recipient_query_def tenant_contacts_def recipient_condition_True spec_recipient_def)

theorem recipient_query_spec_witness:
  "set (recipient_query world_vip 1 campaign_vip) = {alice} \<and>
   {c \<in> set (contacts world_vip). spec_recipient 1 campaign_vip c} = {alice}"
proof -
  have "recipient_query world_vip 1 campaign_vip = [alice]"
    by code_simp
  then show ?thesis
    using recipient_query_spec [of world_vip 1 campaign_vip] by simp
qed


section \<open>Properties of the queue and of the SMS worker\<close>

text \<open>
  What \<open>queueSMSWithQuietHours\<close> does with a result of \<open>checkMessage\<close>: an approved
  request is queued with no delay; a request that is not approved and whose quiet hours
  check passed is blocked with the collected reasons, and the world is left as it was;
  a request whose quiet hours check failed with a \<open>retryAfter\<close> is queued with the delay
  to it, whatever the other checks said.
\<close>

lemma queueSMS_queue:
  "queueSMS d delay w = (j, w') \<Longrightarrow>
     job_delay j = delay \<and> job_data j = d \<and> smsQueue w' = smsQueue w @ [j] \<and> messages w' = messages w"
  by (auto simp: queueSMS_def Let_def log_line_def)

lemma queueSMSWithQuietHours_allow:
  assumes "checkMessage e w now (j_tenantId d) (j_contactId d) ''sms'' = Inr cr"
    and "cr_approved cr"
  shows "queueSMSWithQuietHours e w now d = Inr (Queued (fst (queueSMS d 0 w)), snd (queueSMS d 0 w))"
  using assms by (simp add: queueSMSWithQuietHours_def split: prod.splits)

lemma queueSMSWithQuietHours_block:
  assumes "checkMessage e w now (j_tenantId d) (j_contactId d) ''sms'' = Inr cr"
    and "\<not> cr_approved cr" and "cr_checks cr = Some cks" and "ck_quietHours cks"
  shows "queueSMSWithQuietHours e w now d = Inr (Blocked (cr_reasons cr), w)"
  using assms by (simp add: queueSMSWithQuietHours_def split: option.splits)

lemma queueSMSWithQuietHours_defer:
  assumes "checkMessage e w now (j_tenantId d) (j_contactId d) ''sms'' = Inr cr"
    and "\<not> cr_approved cr" and "cr_checks cr = Some cks" and "\<not> ck_quietHours cks"
    and "cr_contact cr = Some c" and "checkQuietHours e now c = Inr q" and "retryAfter q = Some r"
  shows "queueSMSWithQuietHours e w now d =
           Inr (Queued (fst (queueSMS d (r - now) w)), snd (queueSMS d (r - now) w))"
  using assms by (simp add: queueSMSWithQuietHours_def Let_def split: prod.splits)

text \<open>
  What the worker does with a job whose compliance check fails at dispatch, for whatever
  reason: the job completes with the blocked result, nothing is queued and no message row
  is written.
\<close>

lemma sendMessage_blocked:
  assumes "checkMessage e w now (j_tenantId d) (j_contactId d) ''sms'' = Inr cr"
    and "\<not> cr_approved cr"
  shows "sendMessage e w now d =
           Inr (SendBlocked (cr_reasons cr), log_line ''warn'' ''Message blocked by compliance'' w)"
  using assms by (simp add: sendMessage_def)

lemma contact_query_log_line: "contact_query (log_line l m w) t c = contact_query w t c"
  by (simp add: contact_query_def tenant_contacts_def tenant_locations_def log_line_def)

lemma checkGlobalOptOut_log_line: "checkGlobalOptOut (log_line l m w) p = checkGlobalOptOut w p"
  by (simp add: checkGlobalOptOut_def log_line_def)

lemma checkRateLimit_log_line:
  "checkRateLimit e (log_line l m w) now t c ty = checkRateLimit e w now t c ty"
  by (simp add: checkRateLimit_def tenant_messages_def log_line_def)

lemma checkMessage_log_line:
  "checkMessage e (log_line l m w) now t c ty = checkMessage e w now t c ty"
  by (simp only: checkMessage_def contact_query_log_line checkGlobalOptOut_log_line
      checkRateLimit_log_line)

lemma smsWorkerProcessor_blocked:
  assumes "checkMessage e w now (j_tenantId (job_data j)) (j_contactId (job_data j)) ''sms'' = Inr cr"
    and "\<not> cr_approved cr"
  shows "fst (smsWorkerProcessor e w now j) = Completed (SendBlocked (cr_reasons cr)) \<and>
         smsQueue (snd (smsWorkerProcessor e w now j)) = smsQueue w \<and>
         messages (snd (smsWorkerProcessor e w now j)) = messages w"
proof -
  let ?w0 = "log_line ''info'' ''Processing SMS job'' w"
  have "checkMessage e ?w0 now (j_tenantId (job_data j)) (j_contactId (job_data j)) ''sms'' = Inr cr"
    using assms(1) by (simp add: checkMessage_log_line)
  from sendMessage_blocked [OF this assms(2)]
  show ?thesis
    by (simp add: smsWorkerProcessor_def Let_def log_line_def)
qed

section \<open>Properties of the quiet hours clock\<close>

text \<open>
  The setters of the wall clock: after \<open>.hour(h).minute(m).second(0)\<close> the wall clock
  reads \<open>h:m:00\<close> of the same day, with the milliseconds it had before.
\<close>

lemma div_div_24: "(W::int) div 3600000 div 24 = W div 86400000"
  by (simp add: zdiv_zmult2_eq [symmetric])

lemma hour_step:
  fixes W h :: int
  shows "W + (h - (W div 3600000) mod 24) * 3600000 =
         ((W div 86400000) * 24 + h) * 3600000 + W mod 3600000"
proof -
  define q where "q = W div 3600000"
  define r where "r = W mod 3600000"
  define d where "d = q div 24"
  define x where "x = q mod 24"
  have 1: "W = 3600000 * q + r" by (simp add: q_def r_def)
  have 2: "q = 24 * d + x" by (simp add: d_def x_def)
  have 3: "W div 86400000 = d" by (simp add: d_def q_def div_div_24)
  have "W + (h - x) * 3600000 = (d * 24 + h) * 3600000 + r"
    using 1 2 by (simp add: algebra_simps)
  then show ?thesis
    by (simp only: 3 x_def q_def r_def)
qed

lemma field_step:
  fixes k r v n :: int
  assumes "0 < n" and "0 \<le> r" and "r < 60 * n"
  shows "(k * (60 * n) + r) + (v - ((k * (60 * n) + r) div n) mod 60) * n =
         (k * 60 + v) * n + r mod n"
proof -
  define q where "q = r div n"
  define s where "s = r mod n"
  have 1: "r = n * q + s" by (simp add: q_def s_def)
  have s: "0 \<le> s" "s < n" using assms(1) by (simp_all add: s_def)
  have q0: "0 \<le> q" using assms(1,2) by (simp add: q_def pos_imp_zdiv_nonneg_iff)
  have q1: "q < 60"
  proof (rule ccontr)
    assume "\<not> q < 60"
    then have "60 \<le> q" by simp
    then have "n * 60 \<le> n * q" using assms(1) by (simp add: mult_left_mono)
    with 1 s assms(3) show False by (simp add: mult.commute)
  qed
  have "k * (60 * n) + r = r + (60 * k) * n" by (simp add: algebra_simps)
  then have "(k * (60 * n) + r) div n = (r + (60 * k) * n) div n" by (rule arg_cong)
  also have "\<dots> = 60 * k + r div n"
    using assms(1) by (subst div_mult_self1) simp_all
  finally have a: "(k * (60 * n) + r) div n = 60 * k + q"
    by (simp only: q_def)
  have c: "(60 * k + q) mod 60 = q"
    using q0 q1 by simp
  have "(k * (60 * n) + r) + (v - q) * n = (k * 60 + v) * n + s"
    using 1 by (simp add: algebra_simps)
  then show ?thesis
    by (simp only: a c s_def)
qed


lemma set_fields:
  fixes W h m :: int
  defines "W1 \<equiv> W + (h - (W div 3600000) mod 24) * 3600000"
  defines "W2 \<equiv> W1 + (m - (W1 div 60000) mod 60) * 60000"
  defines "W3 \<equiv> W2 + (0 - (W2 div 1000) mod 60) * 1000"
  shows "W3 = (W div 86400000) * 86400000 + h * 3600000 + m * 60000 + W mod 1000"
proof -
  define a where "a = W div 86400000"
  define r1 where "r1 = W mod 3600000"
  define r2 where "r2 = r1 mod 60000"
  have r1: "0 \<le> r1" "r1 < 60 * 60000" by (simp_all add: r1_def)
  have r2: "0 \<le> r2" "r2 < 60 * 1000" by (simp_all add: r2_def)
  have r3: "r2 mod 1000 = W mod 1000"
    by (simp add: r2_def r1_def mod_mod_cancel)
  have e1: "W1 = (a * 24 + h) * (60 * 60000) + r1"
    unfolding W1_def hour_step a_def r1_def by simp
  have e2: "W2 = ((a * 24 + h) * 60 + m) * 60000 + r2"
    unfolding W2_def e1 r2_def
    by (rule field_step [OF _ r1]) simp
  have e2': "W2 = ((a * 24 + h) * 60 + m) * (60 * 1000) + r2"
    unfolding e2 by simp
  have e3: "W3 = (((a * 24 + h) * 60 + m) * 60 + 0) * 1000 + r2 mod 1000"
    unfolding W3_def e2'
    by (rule field_step [OF _ r2]) simp
  show ?thesis
    unfolding e3 r3 a_def [symmetric] by (simp add: algebra_simps)
qed


lemma wall_set_hour:
  "wall (set_hour h d) = wall d + (h - (wall d div 3600000) mod 24) * 3600000"
  unfolding set_hour_def hour_of_def by simp

lemma wall_set_minute:
  "wall (set_minute m d) = wall d + (m - (wall d div 60000) mod 60) * 60000"
  unfolding set_minute_def minute_of_def by simp

lemma wall_set_second:
  "wall (set_second s d) = wall d + (s - (wall d div 1000) mod 60) * 1000"
  unfolding set_second_def second_of_def by simp

lemma wall_set_fields:
  "wall (set_second 0 (set_minute m (set_hour h d))) =
     (wall d div 86400000) * 86400000 + h * 3600000 + m * 60000 + wall d mod 1000"
  unfolding wall_set_second wall_set_minute wall_set_hour
  by (rule set_fields)

lemma offset_set_fields: "offset (set_second s (set_minute m (set_hour h d))) = offset d"
  unfolding set_second_def set_minute_def set_hour_def by simp


lemma getQuietHoursEnd_value:
  assumes tz: "utcOffset e tz now = Some off"
    and h: "parseInt (element_at (split_on (CHR '':'') (quietHours_end (config e))) 0) = Some h"
    and m: "parseInt (element_at (split_on (CHR '':'') (quietHours_end (config e))) (Suc 0)) = Some m"
  shows "getQuietHoursEnd e now tz =
           Inr (if code_end_today off h m now < now + off * 60000
                then code_end_today off h m now + 86400000 - off * 60000
                else code_end_today off h m now - off * 60000)"
proof -
  define today where "today = \<lparr>wall = now + off * 60000, offset = off\<rparr>"
  define endTime where "endTime = set_second 0 (set_minute m (set_hour h today))"
  have t: "dayjs_tz e tz now = Inr today"
    using tz by (simp add: dayjs_tz_def today_def)
  have w: "wall endTime = code_end_today off h m now"
    unfolding endTime_def wall_set_fields code_end_today_def today_def by simp
  have o: "offset endTime = off"
    unfolding endTime_def offset_set_fields today_def by simp
  have b: "isBefore endTime today \<longleftrightarrow> code_end_today off h m now < now + off * 60000"
    unfolding isBefore_def valueOf_def w o today_def by (simp add: diff_less_eq)
  have v1: "valueOf endTime = code_end_today off h m now - off * 60000"
    unfolding valueOf_def w o by simp
  have v2: "valueOf (add_days 1 endTime) = code_end_today off h m now + 86400000 - off * 60000"
    unfolding valueOf_def add_days_def using w o by simp
  have "getQuietHoursEnd e now tz =
          Inr (valueOf (if isBefore endTime today then add_days 1 endTime else endTime))"
    unfolding getQuietHoursEnd_def Let_def
    by (simp only: t h m sum.case option.case endTime_def One_nat_def)
  then show ?thesis
    by (simp only: b v1 v2 if_distrib [of valueOf])
qed


text \<open>
  Unless the wall clock reads the hour and the minute of the end boundary, the instant
  that the code computes is the next end boundary strictly after \<open>now\<close>, plus the
  milliseconds of \<open>now\<close>.
\<close>

lemma code_end_vs_spec:
  fixes now off h m :: int
  assumes h: "0 \<le> h" "h < 24" and m: "0 \<le> m" "m < 60"
    and ne: "\<not> (((now + off * 60000) div 3600000) mod 24 = h
                \<and> ((now + off * 60000) div 60000) mod 60 = m)"
  shows "(if code_end_today off h m now < now + off * 60000
          then code_end_today off h m now + 86400000 - off * 60000
          else code_end_today off h m now - off * 60000)
         = spec_next_end off h m now + now mod 1000"
proof -
  define W where "W = now + off * 60000"
  define q where "q = W div 86400000"
  define r where "r = W mod 86400000"
  define r1 where "r1 = r div 1000"
  define ms where "ms = r mod 1000"
  define c1 where "c1 = h * 3600 + m * 60"
  have W: "W = 86400000 * q + r" by (simp add: q_def r_def)
  have r: "0 \<le> r" "r < 86400000" by (simp_all add: r_def)
  have r1: "r = 1000 * r1 + ms" by (simp add: r1_def ms_def)
  have ms: "0 \<le> ms" "ms < 1000" by (simp_all add: ms_def)
  have Wms: "W mod 1000 = ms"
    by (simp add: ms_def r_def mod_mod_cancel)
  have nowms: "now mod 1000 = ms"
  proof -
    have "W = now + (off * 60) * 1000" by (simp add: W_def)
    then have "W mod 1000 = now mod 1000" by (simp only: mod_mult_self1)
    with Wms show ?thesis by simp
  qed
  have code: "code_end_today off h m now = 86400000 * q + 1000 * c1 + ms"
    by (simp add: code_end_today_def W_def [symmetric] q_def [symmetric] Wms c1_def)
  have spec: "spec_next_end off h m now =
      (if W < 86400000 * q + 1000 * c1 then 86400000 * q + 1000 * c1
       else 86400000 * q + 1000 * c1 + 86400000) - off * 60000"
    by (simp add: spec_next_end_def Let_def W_def [symmetric] q_def [symmetric] c1_def)
  have key: "r \<noteq> 1000 * c1 + ms"
  proof
    assume eq: "r = 1000 * c1 + ms"
    have "W = 3600000 * (24 * q + h) + (m * 60000 + ms)"
      using W eq by (simp add: c1_def)
    moreover have "0 \<le> m * 60000 + ms" "m * 60000 + ms < 3600000"
      using m ms by simp_all
    ultimately have d1: "W div 3600000 = 24 * q + h"
      by (rule int_div_pos_eq)
    have "(h + q * 24) mod 24 = h mod 24"
      by (simp only: mod_mult_self1)
    also have "h mod 24 = h"
      using h by simp
    finally have "(24 * q + h) mod 24 = h"
      by (simp only: add.commute mult.commute)
    then have 1: "(W div 3600000) mod 24 = h"
      by (simp only: d1)
    have "W = 60000 * (60 * (24 * q + h) + m) + ms"
      using W eq by (simp add: c1_def)
    moreover have "0 \<le> ms" "ms < 60000"
      using ms by simp_all
    ultimately have d2: "W div 60000 = 60 * (24 * q + h) + m"
      by (rule int_div_pos_eq)
    have "(m + (24 * q + h) * 60) mod 60 = m mod 60"
      by (simp only: mod_mult_self1)
    also have "m mod 60 = m"
      using m by simp
    finally have "(60 * (24 * q + h) + m) mod 60 = m"
      by (simp only: add.commute mult.commute)
    then have 2: "(W div 60000) mod 60 = m"
      by (simp only: d2)
    from 1 2 ne show False
      by (simp add: W_def)
  qed
  have c1: "0 \<le> c1" using h m by (simp add: c1_def)
  show ?thesis
  proof (cases "r < 1000 * c1")
    case True
    then have "W < 86400000 * q + 1000 * c1" using W by simp
    moreover have "\<not> 86400000 * q + 1000 * c1 + ms < W" using W True ms by simp
    ultimately show ?thesis
      by (simp only: code spec nowms W_def [symmetric] if_True if_False)
  next
    case False
    then have a: "\<not> W < 86400000 * q + 1000 * c1" using W by simp
    have "r1 \<noteq> c1" using key r1 by auto
    moreover have "c1 \<le> r1" using False r1 ms by linarith
    ultimately have "c1 + 1 \<le> r1" by simp
    then have "1000 * c1 + ms < r" using r1 ms by linarith
    then have b: "86400000 * q + 1000 * c1 + ms < W" using W by simp
    show ?thesis
      using a b by (simp only: code spec nowms W_def [symmetric] if_True if_False)
  qed
qed


text \<open>
  A configured time \<open>HH:MM\<close> is split and parsed to its hour and its minute.
\<close>

lemma less_10_cases:
  "(a::nat) < 10 \<Longrightarrow> a = 0 \<or> a = 1 \<or> a = 2 \<or> a = 3 \<or> a = 4 \<or> a = 5 \<or> a = 6 \<or> a = 7 \<or> a = 8 \<or> a = 9"
  by arith

lemma digit_char_facts:
  assumes "a < 10"
  shows "digit_char a \<noteq> CHR '':''" and "digit_value (digit_char a) = a"
    and "\<not> isWhiteSpace (digit_char a)" and "digit_char a \<noteq> CHR ''-''"
    and "digit_char a \<noteq> CHR ''+''" and "digit_char a \<noteq> CHR ''x''"
    and "digit_char a \<noteq> CHR ''X''"
  using less_10_cases [OF assms]
  by (auto simp: digit_char_def digit_value_def isWhiteSpace_def)

lemma digit_char_mod: "digit_char (n mod 10) = digit_char n"
  by (simp add: digit_char_def)

lemma two_digits:
  assumes "n < 100"
  shows "padStart2 (show_nat n) = [digit_char (n div 10), digit_char (n mod 10)]"
proof (cases "n < 10")
  case True
  then show ?thesis
    by (simp add: show_nat.simps [of n] padStart2_def digit_char_def)
next
  case False
  then have "n div 10 < 10" using assms by simp
  then have "show_nat (n div 10) = [digit_char (n div 10)]"
    by (simp add: show_nat.simps [of "n div 10"])
  then show ?thesis
    using False by (simp add: show_nat.simps [of n] padStart2_def digit_char_mod)
qed

lemma hhmm_chars:
  assumes "h < 100" and "m < 100"
  shows "hhmm h m = [digit_char (h div 10), digit_char (h mod 10), CHR '':'',
                     digit_char (m div 10), digit_char (m mod 10)]"
  by (simp add: hhmm_def two_digits assms)

lemma parseInt_two_digits:
  assumes "a < 10" and "b < 10"
  shows "parseInt (Some [digit_char a, digit_char b]) = Some (int (a * 10 + b))"
  using digit_char_facts [OF assms(1)] digit_char_facts [OF assms(2)] assms
  by (simp add: parseInt_def Let_def)

lemma split_hhmm:
  assumes "h < 100" and "m < 100"
  shows "split_on (CHR '':'') (hhmm h m) = [padStart2 (show_nat h), padStart2 (show_nat m)]"
proof -
  have "h div 10 < 10" "h mod 10 < 10" "m div 10 < 10" "m mod 10 < 10"
    using assms by simp_all
  then show ?thesis
    by (simp add: hhmm_chars two_digits assms digit_char_facts(1))
qed

lemma parse_hhmm:
  assumes "h < 100" and "m < 100"
  shows "parseInt (element_at (split_on (CHR '':'') (hhmm h m)) 0) = Some (int h)"
    and "parseInt (element_at (split_on (CHR '':'') (hhmm h m)) (Suc 0)) = Some (int m)"
proof -
  have b: "h div 10 < 10" "h mod 10 < 10" "m div 10 < 10" "m mod 10 < 10"
    using assms by simp_all
  have "parseInt (Some (padStart2 (show_nat h))) = Some (int (h div 10 * 10 + h mod 10))"
    unfolding two_digits [OF assms(1)] by (rule parseInt_two_digits [OF b(1,2)])
  then show "parseInt (element_at (split_on (CHR '':'') (hhmm h m)) 0) = Some (int h)"
    by (simp add: split_hhmm assms element_at_def)
  have "parseInt (Some (padStart2 (show_nat m))) = Some (int (m div 10 * 10 + m mod 10))"
    unfolding two_digits [OF assms(2)] by (rule parseInt_two_digits [OF b(3,4)])
  then show "parseInt (element_at (split_on (CHR '':'') (hhmm h m)) (Suc 0)) = Some (int m)"
    by (simp add: split_hhmm assms element_at_def)
qed

lemma inQuietHours_not_end: "inQuietHours quietStart quietEnd currentTime \<Longrightarrow> currentTime \<noteq> quietEnd"
  by (auto simp: inQuietHours_def split: if_splits)


lemma hour_minute_bounds:
  "0 \<le> hour_of d" "hour_of d < 24" "0 \<le> minute_of d" "minute_of d < 60"
  by (simp_all add: hour_of_def minute_of_def)

lemma format_HHmm_hhmm: "format_HHmm d = hhmm (nat (hour_of d)) (nat (minute_of d))"
  by (simp add: format_HHmm_def hhmm_def)

text \<open>
  For a configured end \<open>HH:MM\<close> and a zone whose offset is known, whenever the quiet
  hours check fails, its \<open>retryAfter\<close> is the next end boundary strictly after \<open>now\<close>
  plus \<open>now mod 1000\<close> milliseconds: it is the boundary itself only when \<open>now\<close> falls
  on a whole second.
\<close>

lemma checkQuietHours_retryAfter:
  assumes off: "utcOffset e (resolve_tz contact) now = Some off"
    and h: "h < 24" and m: "m < 60"
    and cfg: "quietHours_end (config e) = hhmm h m"
    and res: "checkQuietHours e now contact = Inr q" and na: "\<not> approved q"
  shows "retryAfter q = Some (spec_next_end off (int h) (int m) now + now mod 1000)"
proof -
  define today where "today = \<lparr>wall = now + off * 60000, offset = off\<rparr>"
  have t: "dayjs_tz e (resolve_tz contact) now = Inr today"
    using off by (simp add: dayjs_tz_def today_def)
  have inq: "inQuietHours (quietHours_start (config e)) (quietHours_end (config e)) (format_HHmm today)"
    using res na t by (auto simp: checkQuietHours_def Let_def pass_def split: if_splits)
  have "format_HHmm today \<noteq> hhmm h m"
    using inQuietHours_not_end [OF inq] cfg by simp
  then have ne: "\<not> (nat (hour_of today) = h \<and> nat (minute_of today) = m)"
    by (auto simp: format_HHmm_hhmm)
  have ne': "\<not> (((now + off * 60000) div 3600000) mod 24 = int h
                \<and> ((now + off * 60000) div 60000) mod 60 = int m)"
    using ne by (auto simp: hour_of_def minute_of_def today_def)
  have p: "parseInt (element_at (split_on (CHR '':'') (quietHours_end (config e))) 0) = Some (int h)"
    "parseInt (element_at (split_on (CHR '':'') (quietHours_end (config e))) (Suc 0)) = Some (int m)"
    using parse_hhmm [of h m] h m cfg by simp_all
  have v: "getQuietHoursEnd e now (resolve_tz contact) =
             Inr (spec_next_end off (int h) (int m) now + now mod 1000)"
    unfolding getQuietHoursEnd_value [OF off p]
    using code_end_vs_spec [of "int h" "int m" now off] h m ne' by simp
  show ?thesis
    using res inq t v by (auto simp: checkQuietHours_def Let_def)
qed

text \<open>
  \<open>spec_next_end\<close> is the least instant after \<open>now\<close> at which the wall clock of the zone
  reads \<open>h:m:00.000\<close>.
\<close>

lemma spec_next_end_least:
  fixes now off h m :: int
  assumes h: "0 \<le> h" "h < 24" and m: "0 \<le> m" "m < 60"
  shows "now < spec_next_end off h m now"
    and "(spec_next_end off h m now + off * 60000) mod 86400000 = h * 3600000 + m * 60000"
    and "now < t \<Longrightarrow> (t + off * 60000) mod 86400000 = h * 3600000 + m * 60000
           \<Longrightarrow> spec_next_end off h m now \<le> t"
proof -
  define W where "W = now + off * 60000"
  define q where "q = W div 86400000"
  define r where "r = W mod 86400000"
  define c where "c = h * 3600000 + m * 60000"
  have W: "W = 86400000 * q + r" by (simp add: q_def r_def)
  have r: "0 \<le> r" "r < 86400000" by (simp_all add: r_def)
  have c: "0 \<le> c" "c < 86400000" using h m by (simp_all add: c_def)
  have spec: "spec_next_end off h m now =
      (if W < 86400000 * q + c then 86400000 * q + c else 86400000 * q + c + 86400000) - off * 60000"
    by (simp add: spec_next_end_def Let_def W_def [symmetric] q_def [symmetric] c_def)
  show "now < spec_next_end off h m now"
    unfolding spec using W r c by (auto simp: W_def)
  have m1: "(86400000 * q + c) mod 86400000 = c"
    using c by (rule int_mod_pos_eq [OF refl])
  have m2: "(86400000 * q + c + 86400000) mod 86400000 = c"
  proof (rule int_mod_pos_eq [of _ _ "q + 1"])
    show "86400000 * q + c + 86400000 = 86400000 * (q + 1) + c" by simp
  qed (use c in simp_all)
  show "(spec_next_end off h m now + off * 60000) mod 86400000 = h * 3600000 + m * 60000"
    unfolding spec using m1 m2 by (simp add: c_def)
  assume t: "now < t" and tb: "(t + off * 60000) mod 86400000 = h * 3600000 + m * 60000"
  define T where "T = t + off * 60000"
  define k where "k = T div 86400000"
  have T: "T = 86400000 * k + c"
    using tb by (simp add: T_def [symmetric] k_def c_def [symmetric] flip: tb)
      (metis mult_div_mod_eq T_def c_def tb)
  have WT: "W < T" using t by (simp add: W_def T_def)
  show "spec_next_end off h m now \<le> t"
  proof (cases "W < 86400000 * q + c")
    case True
    have "q \<le> k" using W T WT r c by linarith
    then show ?thesis
      unfolding spec using True T by (simp add: T_def)
  next
    case False
    have "q + 1 \<le> k" using W T WT r c False by linarith
    then show ?thesis
      unfolding spec using False T by (simp add: T_def)
  qed
qed

section \<open>Evaluations of the quiet hours path\<close>

text \<open>
  Claim C5, at 22:00:00.500 in Los Angeles with the window 21:00 to 08:00: the check
  judges the instant inside the window, and the \<open>retryAfter\<close> it attaches is
  08:00:00.500 of the next day, half a second after the end boundary 08:00:00.000 that
  the claim names. \<open>getQuietHoursEnd\<close> clears the seconds and keeps the milliseconds.
\<close>

theorem quiet_hours_retry_after_evaluation:
  "checkQuietHours env0 night_la (row_of carol) =
     Inr \<lparr>approved = False,
          reasons = [''Quiet hours in effect (21:00 - 08:00 America/Los_Angeles)''],
          retryAfter = Some 1793808000500\<rparr> \<and>
   spec_next_end (- 480) 8 0 night_la = 1793808000000"
  by code_simp

text \<open>
  Claim C1, for \<open>bob\<close> at \<open>night\<close>: the consent check and the quiet hours check both
  fail, and \<open>queueSMSWithQuietHours\<close> queues the job with the delay to the end of the
  quiet hours, where the claim has the request blocked and no job queued. For a contact
  that does not exist the function throws.
\<close>

theorem queue_defers_with_other_failure:
  "map_sum id cr_reasons (checkMessage env0 world0 night 1 2 ''sms'') =
     Inr [''No SMS consent on file'', ''Quiet hours in effect (21:00 - 08:00 UTC)''] \<and>
   map_sum id (\<lambda>(outcome, w'). (outcome, smsQueue w'))
     (queueSMSWithQuietHours env0 world0 night (job_data_for bob)) = Inr (Queued bob_job, [bob_job]) \<and>
   job_delay bob_job = 36000000 \<and>
   map_sum id fst (queueSMSWithQuietHours env0 world0 day job_data_unknown) =
     Inl (TypeError ''Cannot read properties of undefined (reading quietHours)'')"
  by code_simp

text \<open>
  Claim C2, for \<open>alice\<close> at \<open>night\<close>: the only failing check is quiet hours and a
  \<open>retryAfter\<close> is computed, and the worker completes the job with the blocked result;
  no job is queued again and no message row is written.
\<close>

theorem worker_finalizes_deferred_as_blocked:
  "map_sum id cr_reasons (checkMessage env0 world0 night 1 1 ''sms'') =
     Inr [''Quiet hours in effect (21:00 - 08:00 UTC)''] \<and>
   map_sum id retryAfter (checkQuietHours env0 night (row_of alice)) = Inr (Some 1793779200500) \<and>
   fst (smsWorkerProcessor env0 world0 night (job_for alice)) =
     Completed (SendBlocked [''Quiet hours in effect (21:00 - 08:00 UTC)'']) \<and>
   smsQueue (snd (smsWorkerProcessor env0 world0 night (job_for alice))) = [] \<and>
   messages (snd (smsWorkerProcessor env0 world0 night (job_for alice))) = []"
  by code_simp

end
